theory Spec2Isabelle
  imports Main "HOL-Library.Sublist" "HOL-Library.Multiset"
begin

section \<open>The check status\<close>

text \<open>
  \<^verbatim>\<open>type CheckResultStatus int\<close> with the constants \<^verbatim>\<open>CheckStatusNone\<close> ...
  \<^verbatim>\<open>CheckStatusRed\<close> numbered by \<^verbatim>\<open>iota\<close>. The checks only compare statuses, so
  the model is \<open>int\<close> with its order.
\<close>

type_synonym CheckResultStatus = int

definition CheckStatusNone :: CheckResultStatus where
  "CheckStatusNone = 0"

definition CheckStatusGreen :: CheckResultStatus where
  "CheckStatusGreen = 1"

definition CheckStatusYellow :: CheckResultStatus where
  "CheckStatusYellow = 2"

definition CheckStatusRed :: CheckResultStatus where
  "CheckStatusRed = 3"

section \<open>The analysis snapshot\<close>

text \<open>
  Package \<^verbatim>\<open>jira\<close> and the declaration of \<^verbatim>\<open>IssueAnalysis\<close> are not among the
  sources. The records below have the fields that \<^verbatim>\<open>checks.go\<close> reads. Each method of
  \<^verbatim>\<open>jira.Issue\<close> that the checks call (\<^verbatim>\<open>InStatus\<close>, \<^verbatim>\<open>IsType\<close>, \<^verbatim>\<open>IsActive\<close>,
  \<^verbatim>\<open>HasComponent\<close>, \<^verbatim>\<open>Approved\<close>, \<^verbatim>\<open>IsPrioritized\<close>) is a field holding what the
  method returns for that issue, so the checks are verified for every behaviour of the
  absent package. Only the two status constants and the two type constants used by the
  checks are named.
\<close>

datatype IssueStatus = IssueStatusObsolete | IssueStatusDone

datatype IssueType = IssueTypeEpic | IssueTypeStory

record FixVersion =
  Name :: string

record Component =
  Name :: string

record Epic =
  Key :: string

record IssueFields =
  FixVersions :: "FixVersion list"
  Description :: string
  Components :: "Component list"
  Epic :: "Epic option"

record IssuePlanning =
  NoQE :: bool
  NoFeature :: bool
  NoDoc :: bool

text \<open>The methods of an issue; a linked issue is used through these only.\<close>

record IssueMethods =
  InStatus :: "IssueStatus \<Rightarrow> bool"
  IsType :: "IssueType \<Rightarrow> bool"
  IsActive :: bool
  HasComponent :: "string \<Rightarrow> bool"
  Approved :: bool
  IsPrioritized :: bool

text \<open>
  \<open>AnyImpediment\<close> is what \<^verbatim>\<open>LinkedIssues.AnyImpediment()\<close> returns for the collection of
  linked issues.
\<close>

record Issue = IssueMethods +
  Fields :: IssueFields
  Owner :: string
  QAContact :: string
  Acceptance :: string
  Design :: string
  ParentLink :: string
  Impediment :: bool
  Planning :: IssuePlanning
  LinkedIssues :: "IssueMethods list"
  AnyImpediment :: bool

text \<open>The completion counters; the spec calls them counts, so they are integers here.\<close>

record Progress =
  Status :: int
  Total :: int
  Unknown :: int

record IssueAnalysis =
  Issue :: Issue
  Component :: "string option"
  NumActivities :: int
  IssueNoComponent :: bool
  IssuesCompletion :: Progress
  PointsCompletion :: Progress
  CommentStatus :: CheckResultStatus

text \<open>
  Modelled from the spec: \<^verbatim>\<open>FilterByFunction\<close> of the absent package \<^verbatim>\<open>jira\<close>; the spec
  describes it as filtering the linked issues, keeping those the function accepts.
\<close>

definition FilterByFunction :: "IssueMethods list \<Rightarrow> (IssueMethods \<Rightarrow> bool) \<Rightarrow> IssueMethods list" where
  "FilterByFunction c f = filter f c"

section \<open>The check result and its three mutators\<close>

record CheckResult =
  Ready :: bool
  Status :: CheckResultStatus
  Messages :: "string list"

definition SetReady :: "bool \<Rightarrow> CheckResult \<Rightarrow> CheckResult" where
  "SetReady ready r = (if Ready r \<and> \<not> ready then r\<lparr>Ready := False\<rparr> else r)"

definition SetStatus :: "CheckResultStatus \<Rightarrow> CheckResult \<Rightarrow> CheckResult" where
  "SetStatus status r = (if status > Status r then r\<lparr>Status := status\<rparr> else r)"

definition AddMessage :: "string \<Rightarrow> CheckResult \<Rightarrow> CheckResult" where
  "AddMessage message r = r\<lparr>Messages := Messages r @ [message]\<rparr>"

section \<open>The checks\<close>

text \<open>
  Every check is a method on the result that reads the analysis; here it takes the analysis
  and the result and returns the result. A chain \<^verbatim>\<open>r.SetReady(false).AddMessage(m)\<close> is
  \<open>AddMessage m (SetReady False r)\<close>.
\<close>

text \<open>The loop of \<^verbatim>\<open>checkAlongside\<close>: it returns at the first matching version.\<close>

fun checkAlongside_loop :: "FixVersion list \<Rightarrow> CheckResult \<Rightarrow> CheckResult" where
  "checkAlongside_loop [] r = r"
| "checkAlongside_loop (v # vs) r =
     (if prefix ''Alongside'' (FixVersion.Name v) then AddMessage ''ALONGSIDE'' r
      else checkAlongside_loop vs r)"

definition checkAlongside :: "IssueAnalysis \<Rightarrow> CheckResult \<Rightarrow> CheckResult" where
  "checkAlongside a r = checkAlongside_loop (FixVersions (Fields (Issue a))) r"

definition checkVersion :: "IssueAnalysis \<Rightarrow> CheckResult \<Rightarrow> CheckResult" where
  "checkVersion a r =
     (let r1 = (if length (FixVersions (Fields (Issue a))) = 0
                then AddMessage ''NOVERSION'' (SetReady False r) else r)
      in if length (FixVersions (Fields (Issue a))) > 1
         then AddMessage ''MULTIVERSION'' r1 else r1)"

definition checkActivities :: "IssueAnalysis \<Rightarrow> CheckResult \<Rightarrow> CheckResult" where
  "checkActivities a r =
     (if IsType (Issue a) IssueTypeEpic \<and> NumActivities a = 0
      then AddMessage ''NOSTORIES'' (SetReady False r) else r)"

definition checkDescription :: "IssueAnalysis \<Rightarrow> CheckResult \<Rightarrow> CheckResult" where
  "checkDescription a r =
     (if Description (Fields (Issue a)) = ''''
      then AddMessage ''NODESCRIPTION'' (SetReady False r) else r)"

definition checkApprovals :: "IssueAnalysis \<Rightarrow> CheckResult \<Rightarrow> CheckResult" where
  "checkApprovals a r =
     (if IsType (Issue a) IssueTypeEpic \<and> \<not> Approved (Issue a)
      then AddMessage ''NOACKS'' (SetReady False r) else r)"

definition checkDeliveryOwner :: "IssueAnalysis \<Rightarrow> CheckResult \<Rightarrow> CheckResult" where
  "checkDeliveryOwner a r =
     (if Owner (Issue a) = ''''
      then AddMessage ''NODELIVERYOWNER'' (SetStatus CheckStatusRed (SetReady False r)) else r)"

definition checkPlanningFlags :: "IssueAnalysis \<Rightarrow> CheckResult \<Rightarrow> CheckResult" where
  "checkPlanningFlags a r =
     (let r1 = (if NoQE (Planning (Issue a)) then AddMessage ''NOQE'' r else r);
          r2 = (if NoFeature (Planning (Issue a)) then AddMessage ''NOFEATURE'' r1 else r1)
      in if NoDoc (Planning (Issue a)) then AddMessage ''NODOC'' r2 else r2)"

definition checkQAContact :: "IssueAnalysis \<Rightarrow> CheckResult \<Rightarrow> CheckResult" where
  "checkQAContact a r =
     (if NoQE (Planning (Issue a))
      then (if QAContact (Issue a) \<noteq> ''''
            then AddMessage ''NOQEMISMATCH'' (SetReady False r) else r)
      else if QAContact (Issue a) = ''''
      then AddMessage ''NOQACONTACT'' (SetStatus CheckStatusRed (SetReady False r))
      else r)"

definition checkAcceptanceCriteria :: "IssueAnalysis \<Rightarrow> CheckResult \<Rightarrow> CheckResult" where
  "checkAcceptanceCriteria a r =
     (if Acceptance (Issue a) = ''''
      then AddMessage ''NOCRITERIA'' (SetStatus CheckStatusRed (SetReady False r)) else r)"

definition checkPriority :: "IssueAnalysis \<Rightarrow> CheckResult \<Rightarrow> CheckResult" where
  "checkPriority a r =
     (if \<not> IsPrioritized (Issue a)
      then AddMessage ''NOPRIORITY'' (SetStatus CheckStatusRed (SetReady False r)) else r)"

definition checkStarted :: "IssueAnalysis \<Rightarrow> CheckResult \<Rightarrow> CheckResult" where
  "checkStarted a r =
     (if \<not> IsActive (Issue a) \<and> \<not> InStatus (Issue a) IssueStatusDone
      then AddMessage ''NOTSTARTED'' (SetStatus CheckStatusYellow r) else r)"

definition checkStoryPoints :: "IssueAnalysis \<Rightarrow> CheckResult \<Rightarrow> CheckResult" where
  "checkStoryPoints a r =
     (if Unknown (PointsCompletion a) > 0 then AddMessage ''NOSTORYPOINTS'' r else r)"

definition checkImpediment :: "IssueAnalysis \<Rightarrow> CheckResult \<Rightarrow> CheckResult" where
  "checkImpediment a r =
     (if Impediment (Issue a) \<or> AnyImpediment (Issue a)
      then AddMessage ''IMPEDIMENT'' (SetStatus CheckStatusRed r) else r)"

definition checkInitiative :: "IssueAnalysis \<Rightarrow> CheckResult \<Rightarrow> CheckResult" where
  "checkInitiative a r =
     (if IsType (Issue a) IssueTypeEpic \<and> ParentLink (Issue a) = ''''
      then AddMessage ''NOINITIATIVE'' (SetReady False r) else r)"

definition checkIssueComponent :: "IssueAnalysis \<Rightarrow> CheckResult \<Rightarrow> CheckResult" where
  "checkIssueComponent a r =
     (if IssueNoComponent a then AddMessage ''ISSUENOCOMPONENT'' (SetReady False r) else r)"

text \<open>
  The loop of \<^verbatim>\<open>checkComponent\<close>: \<^verbatim>\<open>missing\<close> starts true and the loop breaks with false
  at the first component of that name.
\<close>

fun checkComponent_missing :: "string \<Rightarrow> Component list \<Rightarrow> bool" where
  "checkComponent_missing t [] = True"
| "checkComponent_missing t (c # cs) =
     (if Component.Name c = t then False else checkComponent_missing t cs)"

definition checkComponent :: "IssueAnalysis \<Rightarrow> CheckResult \<Rightarrow> CheckResult" where
  "checkComponent a r =
     (case Component a of
        None \<Rightarrow> r
      | Some t \<Rightarrow>
          if checkComponent_missing t (Components (Fields (Issue a)))
          then AddMessage ''NOCOMPONENT'' (SetStatus CheckStatusYellow (SetReady False r))
          else r)"

definition checkDone :: "IssueAnalysis \<Rightarrow> CheckResult \<Rightarrow> CheckResult" where
  "checkDone a r =
     (if \<not> InStatus (Issue a) IssueStatusDone then r
      else if Progress.Status (IssuesCompletion a) \<noteq> Total (IssuesCompletion a) \<or>
              Progress.Status (PointsCompletion a) \<noteq> Total (PointsCompletion a)
      then AddMessage ''NOTDONE'' (SetStatus CheckStatusRed r)
      else SetStatus CheckStatusGreen r)"

definition checkStatusComment :: "IssueAnalysis \<Rightarrow> CheckResult \<Rightarrow> CheckResult" where
  "checkStatusComment a r =
     (if CommentStatus a = CheckStatusNone then AddMessage ''NOSTATUSCOMMENT'' r
      else SetStatus (CommentStatus a) r)"

definition checkLinkedEpic :: "IssueAnalysis \<Rightarrow> CheckResult \<Rightarrow> CheckResult" where
  "checkLinkedEpic a r =
     (if \<not> IsType (Issue a) IssueTypeStory then r
      else if (case Epic (Fields (Issue a)) of None \<Rightarrow> True | Some e \<Rightarrow> Key e = '''')
      then AddMessage ''NOEPIC'' (SetReady False r)
      else r)"

definition checkStartedStories :: "IssueAnalysis \<Rightarrow> CheckResult \<Rightarrow> CheckResult" where
  "checkStartedStories a r =
     (if \<not> IsType (Issue a) IssueTypeEpic \<or> \<not> IsActive (Issue a) then r
      else
        let linkedIssues =
              (case Component a of
                 None \<Rightarrow> LinkedIssues (Issue a)
               | Some t \<Rightarrow> FilterByFunction (LinkedIssues (Issue a)) (\<lambda>i. HasComponent i t));
            activeIssues =
              FilterByFunction linkedIssues (\<lambda>i. IsActive i \<or> InStatus i IssueStatusDone)
        in if length activeIssues = 0
           then AddMessage ''NOACTIVESTORIES'' (SetStatus CheckStatusRed r)
           else r)"

text \<open>\<^verbatim>\<open>checkVersions\<close> has an empty body and is not in the slice of checks.\<close>

definition checkVersions :: "IssueAnalysis \<Rightarrow> CheckResult \<Rightarrow> CheckResult" where
  "checkVersions a r = (if \<not> IsType (Issue a) IssueTypeEpic then r else r)"

definition checkDesign :: "IssueAnalysis \<Rightarrow> CheckResult \<Rightarrow> CheckResult" where
  "checkDesign a r =
     (if \<not> NoFeature (Planning (Issue a)) \<and> Design (Issue a) = ''''
      then AddMessage ''NODESIGN'' (SetReady False r) else r)"

section \<open>NewCheckResult\<close>

text \<open>The slice \<^verbatim>\<open>checks\<close> of \<^verbatim>\<open>NewCheckResult\<close>, in its order.\<close>

definition checks :: "(IssueAnalysis \<Rightarrow> CheckResult \<Rightarrow> CheckResult) list" where
  "checks =
     [checkAlongside, checkVersion, checkActivities, checkDescription, checkApprovals,
      checkPlanningFlags, checkDeliveryOwner, checkQAContact, checkAcceptanceCriteria,
      checkPriority, checkStarted, checkStoryPoints, checkImpediment, checkInitiative,
      checkIssueComponent, checkComponent, checkDone, checkStartedStories, checkLinkedEpic,
      checkStatusComment, checkDesign]"

text \<open>The loop \<^verbatim>\<open>for _, f := range checks { f(a) }\<close> on the one shared result.\<close>

definition run_checks ::
  "(IssueAnalysis \<Rightarrow> CheckResult \<Rightarrow> CheckResult) list \<Rightarrow> IssueAnalysis \<Rightarrow> CheckResult \<Rightarrow> CheckResult" where
  "run_checks cs a r = fold (\<lambda>f. f a) cs r"

definition initial_result :: CheckResult where
  "initial_result = \<lparr>Ready = True, Status = CheckStatusNone, Messages = []\<rparr>"

text \<open>
  \<^verbatim>\<open>NewCheckResult\<close> with the slice of checks as a parameter, so that the order of the checks
  can be varied; \<open>NewCheckResult\<close> itself runs the slice of the source.
\<close>

definition NewCheckResult_with ::
  "(IssueAnalysis \<Rightarrow> CheckResult \<Rightarrow> CheckResult) list \<Rightarrow> IssueAnalysis \<Rightarrow> CheckResult" where
  "NewCheckResult_with cs a =
     (if InStatus (Issue a) IssueStatusObsolete then AddMessage ''OBSOLETE'' initial_result
      else run_checks cs a initial_result)"

definition NewCheckResult :: "IssueAnalysis \<Rightarrow> CheckResult" where
  "NewCheckResult a = NewCheckResult_with checks a"

section \<open>The policy table of the specification\<close>

text \<open>
  The triggers of the policy table, each written after the words of its row. They are the
  specification's side of the comparison; the checks above are the code's side.
\<close>

definition trig_alongside :: "IssueAnalysis \<Rightarrow> bool" where
  "trig_alongside a = (\<exists>v \<in> set (FixVersions (Fields (Issue a))). prefix ''Alongside'' (FixVersion.Name v))"

definition trig_noversion :: "IssueAnalysis \<Rightarrow> bool" where
  "trig_noversion a = (length (FixVersions (Fields (Issue a))) = 0)"

definition trig_multiversion :: "IssueAnalysis \<Rightarrow> bool" where
  "trig_multiversion a = (length (FixVersions (Fields (Issue a))) > 1)"

definition trig_nostories :: "IssueAnalysis \<Rightarrow> bool" where
  "trig_nostories a = (IsType (Issue a) IssueTypeEpic \<and> NumActivities a = 0)"

definition trig_nodescription :: "IssueAnalysis \<Rightarrow> bool" where
  "trig_nodescription a = (Description (Fields (Issue a)) = '''')"

definition trig_noacks :: "IssueAnalysis \<Rightarrow> bool" where
  "trig_noacks a = (IsType (Issue a) IssueTypeEpic \<and> \<not> Approved (Issue a))"

definition trig_nodeliveryowner :: "IssueAnalysis \<Rightarrow> bool" where
  "trig_nodeliveryowner a = (Owner (Issue a) = '''')"

definition trig_noqe :: "IssueAnalysis \<Rightarrow> bool" where
  "trig_noqe a = NoQE (Planning (Issue a))"

definition trig_nofeature :: "IssueAnalysis \<Rightarrow> bool" where
  "trig_nofeature a = NoFeature (Planning (Issue a))"

definition trig_nodoc :: "IssueAnalysis \<Rightarrow> bool" where
  "trig_nodoc a = NoDoc (Planning (Issue a))"

definition trig_noqemismatch :: "IssueAnalysis \<Rightarrow> bool" where
  "trig_noqemismatch a = (NoQE (Planning (Issue a)) \<and> QAContact (Issue a) \<noteq> '''')"

definition trig_noqacontact :: "IssueAnalysis \<Rightarrow> bool" where
  "trig_noqacontact a = (\<not> NoQE (Planning (Issue a)) \<and> QAContact (Issue a) = '''')"

definition trig_nocriteria :: "IssueAnalysis \<Rightarrow> bool" where
  "trig_nocriteria a = (Acceptance (Issue a) = '''')"

definition trig_nopriority :: "IssueAnalysis \<Rightarrow> bool" where
  "trig_nopriority a = (\<not> IsPrioritized (Issue a))"

definition trig_notstarted :: "IssueAnalysis \<Rightarrow> bool" where
  "trig_notstarted a = (\<not> IsActive (Issue a) \<and> \<not> InStatus (Issue a) IssueStatusDone)"

definition trig_nostorypoints :: "IssueAnalysis \<Rightarrow> bool" where
  "trig_nostorypoints a = (Unknown (PointsCompletion a) > 0)"

definition trig_impediment :: "IssueAnalysis \<Rightarrow> bool" where
  "trig_impediment a = (Impediment (Issue a) \<or> AnyImpediment (Issue a))"

definition trig_noinitiative :: "IssueAnalysis \<Rightarrow> bool" where
  "trig_noinitiative a = (IsType (Issue a) IssueTypeEpic \<and> ParentLink (Issue a) = '''')"

definition trig_issuenocomponent :: "IssueAnalysis \<Rightarrow> bool" where
  "trig_issuenocomponent a = IssueNoComponent a"

definition trig_nocomponent :: "IssueAnalysis \<Rightarrow> bool" where
  "trig_nocomponent a =
     (case Component a of
        None \<Rightarrow> False
      | Some t \<Rightarrow> t \<notin> set (map Component.Name (Components (Fields (Issue a)))))"

definition trig_notdone :: "IssueAnalysis \<Rightarrow> bool" where
  "trig_notdone a =
     (InStatus (Issue a) IssueStatusDone \<and>
      (Progress.Status (IssuesCompletion a) \<noteq> Total (IssuesCompletion a) \<or>
       Progress.Status (PointsCompletion a) \<noteq> Total (PointsCompletion a)))"

definition trig_nostatuscomment :: "IssueAnalysis \<Rightarrow> bool" where
  "trig_nostatuscomment a = (CommentStatus a = CheckStatusNone)"

definition trig_noepic :: "IssueAnalysis \<Rightarrow> bool" where
  "trig_noepic a =
     (IsType (Issue a) IssueTypeStory \<and>
      (case Epic (Fields (Issue a)) of None \<Rightarrow> True | Some e \<Rightarrow> Key e = ''''))"

definition trig_noactivestories :: "IssueAnalysis \<Rightarrow> bool" where
  "trig_noactivestories a =
     (IsType (Issue a) IssueTypeEpic \<and> IsActive (Issue a) \<and>
      \<not> (\<exists>i \<in> set (LinkedIssues (Issue a)).
            (case Component a of None \<Rightarrow> True | Some t \<Rightarrow> HasComponent i t) \<and>
            (IsActive i \<or> InStatus i IssueStatusDone)))"

definition trig_nodesign :: "IssueAnalysis \<Rightarrow> bool" where
  "trig_nodesign a = (\<not> NoFeature (Planning (Issue a)) \<and> Design (Issue a) = '''')"

text \<open>
  The rows of the policy table that carry a message, in the order in which the
  specification declares them (the Obsolete short-circuit apart).
\<close>

definition spec_policy_table :: "(string \<times> (IssueAnalysis \<Rightarrow> bool)) list" where
  "spec_policy_table =
     [(''ALONGSIDE'', trig_alongside),
      (''NOVERSION'', trig_noversion),
      (''MULTIVERSION'', trig_multiversion),
      (''NOSTORIES'', trig_nostories),
      (''NODESCRIPTION'', trig_nodescription),
      (''NOACKS'', trig_noacks),
      (''NODELIVERYOWNER'', trig_nodeliveryowner),
      (''NOQE'', trig_noqe),
      (''NOFEATURE'', trig_nofeature),
      (''NODOC'', trig_nodoc),
      (''NOQEMISMATCH'', trig_noqemismatch),
      (''NOQACONTACT'', trig_noqacontact),
      (''NOCRITERIA'', trig_nocriteria),
      (''NOPRIORITY'', trig_nopriority),
      (''NOTSTARTED'', trig_notstarted),
      (''NOSTORYPOINTS'', trig_nostorypoints),
      (''IMPEDIMENT'', trig_impediment),
      (''NOINITIATIVE'', trig_noinitiative),
      (''ISSUENOCOMPONENT'', trig_issuenocomponent),
      (''NOCOMPONENT'', trig_nocomponent),
      (''NOTDONE'', trig_notdone),
      (''NOSTATUSCOMMENT'', trig_nostatuscomment),
      (''NOEPIC'', trig_noepic),
      (''NOACTIVESTORIES'', trig_noactivestories),
      (''NODESIGN'', trig_nodesign)]"

text \<open>The same rows in the order in which the slice \<open>checks\<close> of the source runs them.\<close>

definition source_policy_table :: "(string \<times> (IssueAnalysis \<Rightarrow> bool)) list" where
  "source_policy_table =
     [(''ALONGSIDE'', trig_alongside),
      (''NOVERSION'', trig_noversion),
      (''MULTIVERSION'', trig_multiversion),
      (''NOSTORIES'', trig_nostories),
      (''NODESCRIPTION'', trig_nodescription),
      (''NOACKS'', trig_noacks),
      (''NOQE'', trig_noqe),
      (''NOFEATURE'', trig_nofeature),
      (''NODOC'', trig_nodoc),
      (''NODELIVERYOWNER'', trig_nodeliveryowner),
      (''NOQEMISMATCH'', trig_noqemismatch),
      (''NOQACONTACT'', trig_noqacontact),
      (''NOCRITERIA'', trig_nocriteria),
      (''NOPRIORITY'', trig_nopriority),
      (''NOTSTARTED'', trig_notstarted),
      (''NOSTORYPOINTS'', trig_nostorypoints),
      (''IMPEDIMENT'', trig_impediment),
      (''NOINITIATIVE'', trig_noinitiative),
      (''ISSUENOCOMPONENT'', trig_issuenocomponent),
      (''NOCOMPONENT'', trig_nocomponent),
      (''NOTDONE'', trig_notdone),
      (''NOACTIVESTORIES'', trig_noactivestories),
      (''NOEPIC'', trig_noepic),
      (''NOSTATUSCOMMENT'', trig_nostatuscomment),
      (''NODESIGN'', trig_nodesign)]"

text \<open>A table filtered to the rows whose triggers hold, read as the sequence of their codes.\<close>

definition triggered_codes :: "(string \<times> (IssueAnalysis \<Rightarrow> bool)) list \<Rightarrow> IssueAnalysis \<Rightarrow> string list" where
  "triggered_codes tbl a = map fst (filter (\<lambda>row. snd row a) tbl)"

text \<open>The diagnostic codes of the policy table: the code of the short-circuit and of every row.\<close>

definition vocabulary :: "string list" where
  "vocabulary = ''OBSOLETE'' # map fst spec_policy_table"

section \<open>The order on check results\<close>

text \<open>
  \<open>advances r r'\<close>: from \<open>r\<close> to \<open>r'\<close> the field \<open>Ready\<close> has not gone from false to true and
  the field \<open>Status\<close> has not decreased.
\<close>

definition advances :: "CheckResult \<Rightarrow> CheckResult \<Rightarrow> bool" where
  "advances r r' = ((Ready r' \<longrightarrow> Ready r) \<and> Status r \<le> Status r')"

text \<open>
  \<open>merge_like f\<close>: on the fields \<open>Ready\<close> and \<open>Status\<close> the mutation \<open>f\<close> is a merge with a
  fixed contribution, the one it makes to any earlier result.
\<close>

definition merge_like :: "(CheckResult \<Rightarrow> CheckResult) \<Rightarrow> bool" where
  "merge_like f =
     (\<forall>r r'. advances r r' \<longrightarrow>
        Ready (f r') = (Ready r' \<and> Ready (f r)) \<and>
        Status (f r') = max (Status r') (Status (f r)))"

section \<open>Example snapshots\<close>

text \<open>Two linked stories: one in progress, one still in the backlog; both of component Core.\<close>

definition story_in_progress :: IssueMethods where
  "story_in_progress =
     \<lparr>InStatus = (\<lambda>s. False), IsType = (\<lambda>t. t = IssueTypeStory), IsActive = True,
      HasComponent = (\<lambda>c. c = ''Core''), Approved = False, IsPrioritized = True\<rparr>"

definition story_in_backlog :: IssueMethods where
  "story_in_backlog =
     \<lparr>InStatus = (\<lambda>s. False), IsType = (\<lambda>t. t = IssueTypeStory), IsActive = False,
      HasComponent = (\<lambda>c. c = ''Core''), Approved = False, IsPrioritized = False\<rparr>"

text \<open>An epic in progress on which no check has anything to report.\<close>

definition epic_issue :: Issue where
  "epic_issue =
     \<lparr>InStatus = (\<lambda>s. False), IsType = (\<lambda>t. t = IssueTypeEpic), IsActive = True,
      HasComponent = (\<lambda>c. c = ''Core''), Approved = True, IsPrioritized = True,
      Fields = \<lparr>FixVersions = [\<lparr>FixVersion.Name = ''4.5''\<rparr>], Description = ''Text'',
                Components = [\<lparr>Component.Name = ''Core''\<rparr>], Epic = None\<rparr>,
      Owner = ''alice'', QAContact = ''bob'', Acceptance = ''Criteria'', Design = ''Doc'',
      ParentLink = ''INIT-1'', Impediment = False,
      Planning = \<lparr>NoQE = False, NoFeature = False, NoDoc = False\<rparr>,
      LinkedIssues = [story_in_progress], AnyImpediment = False\<rparr>"

definition epic_snapshot :: IssueAnalysis where
  "epic_snapshot =
     \<lparr>Issue = epic_issue, Component = None, NumActivities = 1, IssueNoComponent = False,
      IssuesCompletion = \<lparr>Progress.Status = 0, Total = 1, Unknown = 0\<rparr>,
      PointsCompletion = \<lparr>Progress.Status = 0, Total = 3, Unknown = 0\<rparr>,
      CommentStatus = CheckStatusGreen\<rparr>"

text \<open>The same epic without an owner and planned without QE (and so without a QA contact).\<close>

definition unowned_noqe_snapshot :: IssueAnalysis where
  "unowned_noqe_snapshot =
     epic_snapshot\<lparr>Issue := epic_issue\<lparr>Owner := '''', QAContact := '''',
       Planning := \<lparr>NoQE = True, NoFeature = False, NoDoc = False\<rparr>\<rparr>\<rparr>"

text \<open>
  An epic in the backlog with everything amiss: two fix versions of which one is an
  Alongside version, no description, no approvals, no owner, a QA contact although it is
  planned without QE, and so on; the target component Core is not among its components.
\<close>

definition neglected_issue :: Issue where
  "neglected_issue =
     \<lparr>InStatus = (\<lambda>s. False), IsType = (\<lambda>t. t = IssueTypeEpic), IsActive = False,
      HasComponent = (\<lambda>c. c = ''Other''), Approved = False, IsPrioritized = False,
      Fields = \<lparr>FixVersions = [\<lparr>FixVersion.Name = ''Alongside 4.5''\<rparr>,
                               \<lparr>FixVersion.Name = ''4.6''\<rparr>],
                Description = '''',
                Components = [\<lparr>Component.Name = ''Other''\<rparr>], Epic = None\<rparr>,
      Owner = '''', QAContact = ''bob'', Acceptance = '''', Design = '''',
      ParentLink = '''', Impediment = True,
      Planning = \<lparr>NoQE = True, NoFeature = True, NoDoc = True\<rparr>,
      LinkedIssues = [story_in_backlog], AnyImpediment = False\<rparr>"

definition neglected_snapshot :: IssueAnalysis where
  "neglected_snapshot =
     \<lparr>Issue = neglected_issue, Component = Some ''Core'', NumActivities = 0,
      IssueNoComponent = True,
      IssuesCompletion = \<lparr>Progress.Status = 0, Total = 1, Unknown = 0\<rparr>,
      PointsCompletion = \<lparr>Progress.Status = 0, Total = 0, Unknown = 1\<rparr>,
      CommentStatus = CheckStatusNone\<rparr>"

text \<open>The neglected epic once it has been declared obsolete.\<close>

definition obsolete_snapshot :: IssueAnalysis where
  "obsolete_snapshot =
     neglected_snapshot\<lparr>Issue := neglected_issue\<lparr>InStatus := (\<lambda>s. s = IssueStatusObsolete)\<rparr>\<rparr>"

text \<open>
  A story that is done although one of its five linked issues is still open; it has no fix
  version, no QA contact, no epic and no design document.
\<close>

definition done_story_issue :: Issue where
  "done_story_issue =
     \<lparr>InStatus = (\<lambda>s. s = IssueStatusDone), IsType = (\<lambda>t. t = IssueTypeStory),
      IsActive = False, HasComponent = (\<lambda>c. c = ''Core''), Approved = False,
      IsPrioritized = True,
      Fields = \<lparr>FixVersions = [], Description = ''Text'',
                Components = [\<lparr>Component.Name = ''Core''\<rparr>], Epic = None\<rparr>,
      Owner = ''alice'', QAContact = '''', Acceptance = ''Criteria'', Design = '''',
      ParentLink = '''', Impediment = False,
      Planning = \<lparr>NoQE = False, NoFeature = False, NoDoc = False\<rparr>,
      LinkedIssues = [], AnyImpediment = False\<rparr>"

definition done_story_snapshot :: IssueAnalysis where
  "done_story_snapshot =
     \<lparr>Issue = done_story_issue, Component = None, NumActivities = 0, IssueNoComponent = False,
      IssuesCompletion = \<lparr>Progress.Status = 4, Total = 5, Unknown = 0\<rparr>,
      PointsCompletion = \<lparr>Progress.Status = 8, Total = 8, Unknown = 0\<rparr>,
      CommentStatus = CheckStatusGreen\<rparr>"

text \<open>The epic in progress, without any linked issue.\<close>

definition childless_snapshot :: IssueAnalysis where
  "childless_snapshot =
     epic_snapshot\<lparr>Issue := epic_issue\<lparr>LinkedIssues := []\<rparr>, NumActivities := 0,
       IssuesCompletion := \<lparr>Progress.Status = 0, Total = 0, Unknown = 0\<rparr>,
       PointsCompletion := \<lparr>Progress.Status = 0, Total = 0, Unknown = 0\<rparr>\<rparr>"

text \<open>
  The examples of the specification for the Done rule: a done epic with counters 5 of 5
  and 8 of 8, and the same with 4 of 5 issues.
\<close>

definition done_epic_issue :: Issue where
  "done_epic_issue = epic_issue\<lparr>InStatus := (\<lambda>s. s = IssueStatusDone), IsActive := False\<rparr>"

definition done_consistent_snapshot :: IssueAnalysis where
  "done_consistent_snapshot =
     epic_snapshot\<lparr>Issue := done_epic_issue,
       IssuesCompletion := \<lparr>Progress.Status = 5, Total = 5, Unknown = 0\<rparr>,
       PointsCompletion := \<lparr>Progress.Status = 8, Total = 8, Unknown = 0\<rparr>\<rparr>"

definition done_inconsistent_snapshot :: IssueAnalysis where
  "done_inconsistent_snapshot =
     done_consistent_snapshot\<lparr>IssuesCompletion := \<lparr>Progress.Status = 4, Total = 5, Unknown = 0\<rparr>\<rparr>"

text \<open>The epic in progress with a QA contact although planned without QE, and with none at all.\<close>

definition qe_mismatch_snapshot :: IssueAnalysis where
  "qe_mismatch_snapshot =
     epic_snapshot\<lparr>Issue := epic_issue\<lparr>Planning := \<lparr>NoQE = True, NoFeature = False, NoDoc = False\<rparr>\<rparr>\<rparr>"

definition no_qa_contact_snapshot :: IssueAnalysis where
  "no_qa_contact_snapshot = epic_snapshot\<lparr>Issue := epic_issue\<lparr>QAContact := ''''\<rparr>\<rparr>"

text \<open>The epic without QA contact once it has been declared obsolete.\<close>

definition obsolete_no_qa_snapshot :: IssueAnalysis where
  "obsolete_no_qa_snapshot =
     epic_snapshot\<lparr>Issue := epic_issue\<lparr>InStatus := (\<lambda>s. s = IssueStatusObsolete),
       IsActive := False, QAContact := ''''\<rparr>\<rparr>"

text \<open>
  The component example of the specification: the target component is Core, the issue's own
  components are Other.
\<close>

definition other_component_snapshot :: IssueAnalysis where
  "other_component_snapshot =
     epic_snapshot\<lparr>Issue := epic_issue\<lparr>Fields := (Fields epic_issue)
         \<lparr>Components := [\<lparr>Component.Name = ''Other''\<rparr>]\<rparr>\<rparr>,
       Component := Some ''Core''\<rparr>"

text \<open>The epic in progress with two Alongside fix versions.\<close>

definition twice_alongside_snapshot :: IssueAnalysis where
  "twice_alongside_snapshot =
     epic_snapshot\<lparr>Issue := epic_issue\<lparr>Fields := (Fields epic_issue)
         \<lparr>FixVersions := [\<lparr>FixVersion.Name = ''Alongside 4.5''\<rparr>,
                          \<lparr>FixVersion.Name = ''Alongside 4.6''\<rparr>]\<rparr>\<rparr>\<rparr>"

section \<open>The mutators, field by field\<close>

lemmas status_defs =
  CheckStatusNone_def CheckStatusGreen_def CheckStatusYellow_def CheckStatusRed_def

lemma SetReady_fields:
  "Ready (SetReady b r) = (Ready r \<and> b)"
  "Status (SetReady b r) = Status r"
  "Messages (SetReady b r) = Messages r"
  by (auto simp: SetReady_def)

lemma SetStatus_fields:
  "Ready (SetStatus s r) = Ready r"
  "Status (SetStatus s r) = max (Status r) s"
  "Messages (SetStatus s r) = Messages r"
  by (simp_all add: SetStatus_def)

lemma AddMessage_fields:
  "Ready (AddMessage m r) = Ready r"
  "Status (AddMessage m r) = Status r"
  "Messages (AddMessage m r) = Messages r @ [m]"
  by (simp_all add: AddMessage_def)

lemmas mutator_fields = SetReady_fields SetStatus_fields AddMessage_fields

lemma triggered_codes_single:
  "triggered_codes [(c, t)] a = (if t a then [c] else [])"
  by (simp add: triggered_codes_def)

lemma triggered_codes_split:
  "triggered_codes (row # row' # tbl) a = triggered_codes [row] a @ triggered_codes (row' # tbl) a"
  by (simp add: triggered_codes_def)

lemma triggered_codes_subset:
  "set (triggered_codes tbl a) \<subseteq> set (map fst tbl)"
  by (auto simp: triggered_codes_def)

section \<open>The two loops\<close>

lemma checkAlongside_loop_eq:
  "checkAlongside_loop vs r =
     (if \<exists>v \<in> set vs. prefix ''Alongside'' (FixVersion.Name v)
      then AddMessage ''ALONGSIDE'' r else r)"
  by (induction vs) simp_all

lemma checkComponent_missing_eq:
  "checkComponent_missing t cs = (t \<notin> set (map Component.Name cs))"
  by (induction cs) auto

section \<open>What each check does to each field\<close>

lemma checkAlongside_effect:
  "Ready (checkAlongside a r) = Ready r"
  "Status (checkAlongside a r) = Status r"
  "Messages (checkAlongside a r) = Messages r @ triggered_codes [(''ALONGSIDE'', trig_alongside)] a"
  by (simp_all add: checkAlongside_def checkAlongside_loop_eq trig_alongside_def
      triggered_codes_single mutator_fields)

lemma checkVersion_effect:
  "Ready (checkVersion a r) = (Ready r \<and> \<not> trig_noversion a)"
  "Status (checkVersion a r) = Status r"
  "Messages (checkVersion a r) =
     Messages r @ triggered_codes [(''NOVERSION'', trig_noversion), (''MULTIVERSION'', trig_multiversion)] a"
  by (simp_all add: checkVersion_def trig_noversion_def trig_multiversion_def
      triggered_codes_single triggered_codes_split mutator_fields)

lemma checkActivities_effect:
  "Ready (checkActivities a r) = (Ready r \<and> \<not> trig_nostories a)"
  "Status (checkActivities a r) = Status r"
  "Messages (checkActivities a r) = Messages r @ triggered_codes [(''NOSTORIES'', trig_nostories)] a"
  by (simp_all add: checkActivities_def trig_nostories_def triggered_codes_single mutator_fields)

lemma checkDescription_effect:
  "Ready (checkDescription a r) = (Ready r \<and> \<not> trig_nodescription a)"
  "Status (checkDescription a r) = Status r"
  "Messages (checkDescription a r) =
     Messages r @ triggered_codes [(''NODESCRIPTION'', trig_nodescription)] a"
  by (simp_all add: checkDescription_def trig_nodescription_def triggered_codes_single
      mutator_fields)

lemma checkApprovals_effect:
  "Ready (checkApprovals a r) = (Ready r \<and> \<not> trig_noacks a)"
  "Status (checkApprovals a r) = Status r"
  "Messages (checkApprovals a r) = Messages r @ triggered_codes [(''NOACKS'', trig_noacks)] a"
  by (simp_all add: checkApprovals_def trig_noacks_def triggered_codes_single mutator_fields)

lemma checkPlanningFlags_effect:
  "Ready (checkPlanningFlags a r) = Ready r"
  "Status (checkPlanningFlags a r) = Status r"
  "Messages (checkPlanningFlags a r) =
     Messages r @ triggered_codes
       [(''NOQE'', trig_noqe), (''NOFEATURE'', trig_nofeature), (''NODOC'', trig_nodoc)] a"
  by (simp_all add: checkPlanningFlags_def trig_noqe_def trig_nofeature_def trig_nodoc_def
      triggered_codes_single triggered_codes_split mutator_fields)

lemma checkDeliveryOwner_effect:
  "Ready (checkDeliveryOwner a r) = (Ready r \<and> \<not> trig_nodeliveryowner a)"
  "Status (checkDeliveryOwner a r) =
     (if trig_nodeliveryowner a then max (Status r) CheckStatusRed else Status r)"
  "Messages (checkDeliveryOwner a r) =
     Messages r @ triggered_codes [(''NODELIVERYOWNER'', trig_nodeliveryowner)] a"
  by (simp_all add: checkDeliveryOwner_def trig_nodeliveryowner_def triggered_codes_single
      mutator_fields)

lemma checkQAContact_effect:
  "Ready (checkQAContact a r) = (Ready r \<and> \<not> trig_noqemismatch a \<and> \<not> trig_noqacontact a)"
  "Status (checkQAContact a r) =
     (if trig_noqacontact a then max (Status r) CheckStatusRed else Status r)"
  "Messages (checkQAContact a r) =
     Messages r @ triggered_codes
       [(''NOQEMISMATCH'', trig_noqemismatch), (''NOQACONTACT'', trig_noqacontact)] a"
  by (simp_all add: checkQAContact_def trig_noqemismatch_def trig_noqacontact_def
      triggered_codes_single triggered_codes_split mutator_fields)

lemma checkAcceptanceCriteria_effect:
  "Ready (checkAcceptanceCriteria a r) = (Ready r \<and> \<not> trig_nocriteria a)"
  "Status (checkAcceptanceCriteria a r) =
     (if trig_nocriteria a then max (Status r) CheckStatusRed else Status r)"
  "Messages (checkAcceptanceCriteria a r) =
     Messages r @ triggered_codes [(''NOCRITERIA'', trig_nocriteria)] a"
  by (simp_all add: checkAcceptanceCriteria_def trig_nocriteria_def triggered_codes_single
      mutator_fields)

lemma checkPriority_effect:
  "Ready (checkPriority a r) = (Ready r \<and> \<not> trig_nopriority a)"
  "Status (checkPriority a r) =
     (if trig_nopriority a then max (Status r) CheckStatusRed else Status r)"
  "Messages (checkPriority a r) = Messages r @ triggered_codes [(''NOPRIORITY'', trig_nopriority)] a"
  by (simp_all add: checkPriority_def trig_nopriority_def triggered_codes_single mutator_fields)

lemma checkStarted_effect:
  "Ready (checkStarted a r) = Ready r"
  "Status (checkStarted a r) =
     (if trig_notstarted a then max (Status r) CheckStatusYellow else Status r)"
  "Messages (checkStarted a r) = Messages r @ triggered_codes [(''NOTSTARTED'', trig_notstarted)] a"
  by (simp_all add: checkStarted_def trig_notstarted_def triggered_codes_single mutator_fields)

lemma checkStoryPoints_effect:
  "Ready (checkStoryPoints a r) = Ready r"
  "Status (checkStoryPoints a r) = Status r"
  "Messages (checkStoryPoints a r) =
     Messages r @ triggered_codes [(''NOSTORYPOINTS'', trig_nostorypoints)] a"
  by (simp_all add: checkStoryPoints_def trig_nostorypoints_def triggered_codes_single
      mutator_fields)

lemma checkImpediment_effect:
  "Ready (checkImpediment a r) = Ready r"
  "Status (checkImpediment a r) =
     (if trig_impediment a then max (Status r) CheckStatusRed else Status r)"
  "Messages (checkImpediment a r) = Messages r @ triggered_codes [(''IMPEDIMENT'', trig_impediment)] a"
  by (simp_all add: checkImpediment_def trig_impediment_def triggered_codes_single mutator_fields)

lemma checkInitiative_effect:
  "Ready (checkInitiative a r) = (Ready r \<and> \<not> trig_noinitiative a)"
  "Status (checkInitiative a r) = Status r"
  "Messages (checkInitiative a r) =
     Messages r @ triggered_codes [(''NOINITIATIVE'', trig_noinitiative)] a"
  by (simp_all add: checkInitiative_def trig_noinitiative_def triggered_codes_single
      mutator_fields)

lemma checkIssueComponent_effect:
  "Ready (checkIssueComponent a r) = (Ready r \<and> \<not> trig_issuenocomponent a)"
  "Status (checkIssueComponent a r) = Status r"
  "Messages (checkIssueComponent a r) =
     Messages r @ triggered_codes [(''ISSUENOCOMPONENT'', trig_issuenocomponent)] a"
  by (simp_all add: checkIssueComponent_def trig_issuenocomponent_def triggered_codes_single
      mutator_fields)

lemma checkComponent_effect:
  "Ready (checkComponent a r) = (Ready r \<and> \<not> trig_nocomponent a)"
  "Status (checkComponent a r) =
     (if trig_nocomponent a then max (Status r) CheckStatusYellow else Status r)"
  "Messages (checkComponent a r) = Messages r @ triggered_codes [(''NOCOMPONENT'', trig_nocomponent)] a"
  by (simp_all add: checkComponent_def checkComponent_missing_eq trig_nocomponent_def
      triggered_codes_single mutator_fields split: option.splits)

lemma checkDone_effect:
  "Ready (checkDone a r) = Ready r"
  "Status (checkDone a r) =
     (if trig_notdone a then max (Status r) CheckStatusRed
      else if InStatus (Issue a) IssueStatusDone then max (Status r) CheckStatusGreen
      else Status r)"
  "Messages (checkDone a r) = Messages r @ triggered_codes [(''NOTDONE'', trig_notdone)] a"
  by (simp_all add: checkDone_def trig_notdone_def triggered_codes_single mutator_fields)

lemma checkStartedStories_effect:
  "Ready (checkStartedStories a r) = Ready r"
  "Status (checkStartedStories a r) =
     (if trig_noactivestories a then max (Status r) CheckStatusRed else Status r)"
  "Messages (checkStartedStories a r) =
     Messages r @ triggered_codes [(''NOACTIVESTORIES'', trig_noactivestories)] a"
  by (auto simp add: checkStartedStories_def FilterByFunction_def trig_noactivestories_def
      triggered_codes_single mutator_fields filter_empty_conv split: option.splits)

lemma checkLinkedEpic_effect:
  "Ready (checkLinkedEpic a r) = (Ready r \<and> \<not> trig_noepic a)"
  "Status (checkLinkedEpic a r) = Status r"
  "Messages (checkLinkedEpic a r) = Messages r @ triggered_codes [(''NOEPIC'', trig_noepic)] a"
  by (simp_all add: checkLinkedEpic_def trig_noepic_def triggered_codes_single mutator_fields)

lemma checkStatusComment_effect:
  "Ready (checkStatusComment a r) = Ready r"
  "Status (checkStatusComment a r) =
     (if trig_nostatuscomment a then Status r else max (Status r) (CommentStatus a))"
  "Messages (checkStatusComment a r) =
     Messages r @ triggered_codes [(''NOSTATUSCOMMENT'', trig_nostatuscomment)] a"
  by (simp_all add: checkStatusComment_def trig_nostatuscomment_def triggered_codes_single
      mutator_fields)

lemma checkDesign_effect:
  "Ready (checkDesign a r) = (Ready r \<and> \<not> trig_nodesign a)"
  "Status (checkDesign a r) = Status r"
  "Messages (checkDesign a r) = Messages r @ triggered_codes [(''NODESIGN'', trig_nodesign)] a"
  by (simp_all add: checkDesign_def trig_nodesign_def triggered_codes_single mutator_fields)

lemmas check_effects =
  checkAlongside_effect checkVersion_effect checkActivities_effect checkDescription_effect
  checkApprovals_effect checkPlanningFlags_effect checkDeliveryOwner_effect checkQAContact_effect
  checkAcceptanceCriteria_effect checkPriority_effect checkStarted_effect checkStoryPoints_effect
  checkImpediment_effect checkInitiative_effect checkIssueComponent_effect checkComponent_effect
  checkDone_effect checkStartedStories_effect checkLinkedEpic_effect checkStatusComment_effect
  checkDesign_effect

section \<open>Running a list of checks\<close>

lemma advances_refl: "advances r r"
  by (simp add: advances_def)

lemma advances_trans: "advances r r' \<Longrightarrow> advances r' r'' \<Longrightarrow> advances r r''"
  by (auto simp: advances_def)

lemma merge_like_advances:
  assumes "merge_like f"
  shows "advances r (f r)"
proof -
  have "Ready (f r) = (Ready r \<and> Ready (f r)) \<and> Status (f r) = max (Status r) (Status (f r))"
    using assms advances_refl [of r] unfolding merge_like_def by blast
  then have "Ready (f r) \<longrightarrow> Ready r" and "Status r \<le> Status (f r)"
    by (blast, metis max.cobounded1)
  then show ?thesis
    unfolding advances_def by (rule conjI)
qed

lemma merge_like_Ready:
  "merge_like f \<Longrightarrow> merge_like g \<Longrightarrow> Ready (g (f r)) = (Ready (f r) \<and> Ready (g r))"
  using merge_like_advances [of f r] by (simp add: merge_like_def)

lemma merge_like_Status:
  "merge_like f \<Longrightarrow> merge_like g \<Longrightarrow> Status (g (f r)) = max (Status (f r)) (Status (g r))"
  using merge_like_advances [of f r] by (simp add: merge_like_def)

lemma run_checks_Nil: "run_checks [] a r = r"
  by (simp add: run_checks_def)

lemma run_checks_Cons: "run_checks (c # cs) a r = run_checks cs a (c a r)"
  by (simp add: run_checks_def)

lemma run_checks_append: "run_checks (cs @ ds) a r = run_checks ds a (run_checks cs a r)"
  by (simp add: run_checks_def)

lemma run_checks_Ready:
  "\<forall>c \<in> set cs. merge_like (c a) \<Longrightarrow>
   Ready (run_checks cs a r) = (Ready r \<and> (\<forall>c \<in> set cs. Ready (c a r)))"
proof (induction cs arbitrary: r)
  case Nil
  show ?case by (simp add: run_checks_Nil)
next
  case (Cons c cs)
  have c: "merge_like (c a)" and cs: "\<forall>d \<in> set cs. merge_like (d a)"
    using Cons.prems by simp_all
  have step: "Ready (d a (c a r)) = (Ready (c a r) \<and> Ready (d a r))" if "d \<in> set cs" for d
    using merge_like_Ready [OF c] cs that by blast
  have below: "Ready (c a r) \<Longrightarrow> Ready r"
    using merge_like_advances [OF c, of r] by (simp add: advances_def)
  have "Ready (run_checks (c # cs) a r) =
        (Ready (c a r) \<and> (\<forall>d \<in> set cs. Ready (d a (c a r))))"
    using Cons.IH [OF cs, of "c a r"] by (simp add: run_checks_Cons)
  also have "\<dots> = (Ready (c a r) \<and> (\<forall>d \<in> set cs. Ready (d a r)))"
    using step by blast
  also have "\<dots> = (Ready r \<and> (\<forall>d \<in> set (c # cs). Ready (d a r)))"
    using below by auto
  finally show ?case .
qed

lemma run_checks_Status:
  "\<forall>c \<in> set cs. merge_like (c a) \<Longrightarrow>
   (x \<le> Status (run_checks cs a r)) = (x \<le> Status r \<or> (\<exists>c \<in> set cs. x \<le> Status (c a r)))"
proof (induction cs arbitrary: r)
  case Nil
  show ?case by (simp add: run_checks_Nil)
next
  case (Cons c cs)
  have c: "merge_like (c a)" and cs: "\<forall>d \<in> set cs. merge_like (d a)"
    using Cons.prems by simp_all
  have step: "Status (d a (c a r)) = max (Status (c a r)) (Status (d a r))" if "d \<in> set cs" for d
    using merge_like_Status [OF c] cs that by blast
  have below: "Status r \<le> Status (c a r)"
    using merge_like_advances [OF c, of r] by (simp add: advances_def)
  have "(x \<le> Status (run_checks (c # cs) a r)) =
        (x \<le> Status (c a r) \<or> (\<exists>d \<in> set cs. x \<le> Status (d a (c a r))))"
    using Cons.IH [OF cs, of "c a r"] by (simp add: run_checks_Cons)
  also have "\<dots> = (x \<le> Status (c a r) \<or> (\<exists>d \<in> set cs. x \<le> Status (d a r)))"
    using step by (auto simp: le_max_iff_disj)
  also have "\<dots> = (x \<le> Status r \<or> (\<exists>d \<in> set (c # cs). x \<le> Status (d a r)))"
    using below by auto
  finally show ?case .
qed

lemma run_checks_advances:
  "\<forall>c \<in> set cs. merge_like (c a) \<Longrightarrow> advances r (run_checks cs a r)"
proof (induction cs arbitrary: r)
  case Nil
  show ?case by (simp add: run_checks_Nil advances_refl)
next
  case (Cons c cs)
  have "advances r (c a r)"
    using Cons.prems by (simp add: merge_like_advances)
  moreover have "advances (c a r) (run_checks cs a (c a r))"
    using Cons.IH [of "c a r"] Cons.prems by simp
  ultimately show ?case
    by (simp add: run_checks_Cons) (rule advances_trans)
qed

lemma same_lower_bounds:
  fixes s t :: int
  assumes "\<And>x. (x \<le> s) = (x \<le> t)"
  shows "s = t"
proof (rule antisym)
  show "s \<le> t" using assms [of s] by simp
  show "t \<le> s" using assms [of t] by simp
qed

lemma run_checks_same_set:
  assumes "\<forall>c \<in> set cs. merge_like (c a)" and "set ds = set cs"
  shows "Ready (run_checks ds a r) = Ready (run_checks cs a r)"
    and "Status (run_checks ds a r) = Status (run_checks cs a r)"
proof -
  have ds: "\<forall>c \<in> set ds. merge_like (c a)"
    using assms by simp
  show "Ready (run_checks ds a r) = Ready (run_checks cs a r)"
    by (simp add: run_checks_Ready [OF ds] run_checks_Ready [OF assms(1)] assms(2))
  show "Status (run_checks ds a r) = Status (run_checks cs a r)"
    by (rule same_lower_bounds)
       (simp add: run_checks_Status [OF ds] run_checks_Status [OF assms(1)] assms(2))
qed

section \<open>The checks of the source are merges\<close>

lemma merge_like_SetReady: "merge_like (SetReady b)"
  by (auto simp: merge_like_def advances_def SetReady_fields SetStatus_fields)

lemma merge_like_SetStatus: "merge_like (SetStatus s)"
  by (auto simp: merge_like_def advances_def SetStatus_fields)

lemma merge_like_AddMessage: "merge_like (AddMessage m)"
  by (auto simp: merge_like_def advances_def AddMessage_fields)

lemma checks_merge_like: "c \<in> set checks \<Longrightarrow> merge_like (c a)"
  unfolding checks_def merge_like_def advances_def
  by (auto simp: check_effects)

lemma checks_unfold:
  "run_checks checks a r =
     checkDesign a (checkStatusComment a (checkLinkedEpic a (checkStartedStories a
       (checkDone a (checkComponent a (checkIssueComponent a (checkInitiative a
       (checkImpediment a (checkStoryPoints a (checkStarted a (checkPriority a
       (checkAcceptanceCriteria a (checkQAContact a (checkDeliveryOwner a
       (checkPlanningFlags a (checkApprovals a (checkDescription a (checkActivities a
       (checkVersion a (checkAlongside a r))))))))))))))))))))"
  by (simp add: run_checks_def checks_def)

lemma run_checks_Messages:
  "Messages (run_checks checks a r) = Messages r @ triggered_codes source_policy_table a"
  unfolding checks_unfold source_policy_table_def
  by (simp only: check_effects triggered_codes_split append_assoc)

lemma not_obsolete: 
  "\<not> InStatus (Issue a) IssueStatusObsolete \<Longrightarrow> NewCheckResult a = run_checks checks a initial_result"
  by (simp add: NewCheckResult_def NewCheckResult_with_def)

lemma NewCheckResult_Messages:
  "\<not> InStatus (Issue a) IssueStatusObsolete \<Longrightarrow>
   Messages (NewCheckResult a) = triggered_codes source_policy_table a"
  by (simp add: not_obsolete run_checks_Messages initial_result_def)

lemma NewCheckResult_obsolete:
  "InStatus (Issue a) IssueStatusObsolete \<Longrightarrow>
   NewCheckResult_with cs a = \<lparr>Ready = True, Status = CheckStatusNone, Messages = [''OBSOLETE'']\<rparr>"
  by (simp add: NewCheckResult_with_def initial_result_def AddMessage_def)

lemma same_rows: "mset source_policy_table = mset spec_policy_table"
  by (simp add: source_policy_table_def spec_policy_table_def add_mset_commute)

lemma NewCheckResult_unfold:
  "\<not> InStatus (Issue a) IssueStatusObsolete \<Longrightarrow>
   NewCheckResult a =
     checkDesign a (checkStatusComment a (checkLinkedEpic a (checkStartedStories a
       (checkDone a (checkComponent a (checkIssueComponent a (checkInitiative a
       (checkImpediment a (checkStoryPoints a (checkStarted a (checkPriority a
       (checkAcceptanceCriteria a (checkQAContact a (checkDeliveryOwner a
       (checkPlanningFlags a (checkApprovals a (checkDescription a (checkActivities a
       (checkVersion a (checkAlongside a initial_result))))))))))))))))))))"
  by (simp add: not_obsolete checks_unfold)

lemma NewCheckResult_with_advances:
  assumes "\<forall>c \<in> set cs. merge_like (c a)"
  shows "advances initial_result (NewCheckResult_with cs a)"
proof (cases "InStatus (Issue a) IssueStatusObsolete")
  case True
  then show ?thesis
    by (simp add: NewCheckResult_with_def merge_like_advances merge_like_AddMessage)
next
  case False
  then show ?thesis
    by (simp add: NewCheckResult_with_def run_checks_advances assms)
qed

lemma check_reaches_result:
  assumes "c \<in> set checks" and "\<not> InStatus (Issue a) IssueStatusObsolete"
  shows "advances (c a initial_result) (NewCheckResult a)"
proof -
  have all: "\<forall>c \<in> set checks. merge_like (c a)"
    by (simp add: checks_merge_like)
  have "Ready (NewCheckResult a) \<longrightarrow> Ready (c a initial_result)"
    using assms by (simp add: not_obsolete run_checks_Ready [OF all])
  moreover have "Status (c a initial_result) \<le> Status (NewCheckResult a)"
    using assms run_checks_Status [OF all, of "Status (c a initial_result)" initial_result]
    by (auto simp: not_obsolete)
  ultimately show ?thesis
    by (simp add: advances_def)
qed

lemma source_codes_distinct: "distinct (map fst source_policy_table)"
  by (simp add: source_policy_table_def)

lemma code_triggered:
  "distinct (map fst tbl) \<Longrightarrow> (c, t) \<in> set tbl \<Longrightarrow> (c \<in> set (triggered_codes tbl a)) = t a"
  unfolding triggered_codes_def
  by (induction tbl) (auto simp: rev_image_eqI)

lemma count_triggered_codes:
  "count_list (triggered_codes tbl a) c \<le> count_list (map fst tbl) c"
  by (induction tbl) (simp_all add: triggered_codes_def)

lemma count_distinct: "distinct xs \<Longrightarrow> count_list xs c \<le> 1"
  by (induction xs) auto

lemma SetReady_False_eq: "SetReady False r = r\<lparr>Ready := False\<rparr>"
  by (cases r) (simp add: SetReady_def)

lemma SetStatus_eq: "SetStatus s r = r\<lparr>Status := max (Status r) s\<rparr>"
  by (cases r) (simp add: SetStatus_def max_def)

section \<open>Evaluating the examples\<close>

lemmas trig_defs =
  trig_alongside_def trig_noversion_def trig_multiversion_def trig_nostories_def
  trig_nodescription_def trig_noacks_def trig_nodeliveryowner_def trig_noqe_def
  trig_nofeature_def trig_nodoc_def trig_noqemismatch_def trig_noqacontact_def
  trig_nocriteria_def trig_nopriority_def trig_notstarted_def trig_nostorypoints_def
  trig_impediment_def trig_noinitiative_def trig_issuenocomponent_def trig_nocomponent_def
  trig_notdone_def trig_nostatuscomment_def trig_noepic_def trig_noactivestories_def
  trig_nodesign_def

lemmas example_defs =
  story_in_progress_def story_in_backlog_def epic_issue_def epic_snapshot_def
  unowned_noqe_snapshot_def neglected_issue_def neglected_snapshot_def obsolete_snapshot_def
  done_story_issue_def done_story_snapshot_def childless_snapshot_def done_epic_issue_def
  done_consistent_snapshot_def done_inconsistent_snapshot_def qe_mismatch_snapshot_def
  no_qa_contact_snapshot_def other_component_snapshot_def twice_alongside_snapshot_def
  obsolete_no_qa_snapshot_def

lemma epic_snapshot_codes: "triggered_codes source_policy_table epic_snapshot = []"
  by (simp add: triggered_codes_def source_policy_table_def trig_defs example_defs status_defs)

lemma unowned_noqe_source_codes:
  "triggered_codes source_policy_table unowned_noqe_snapshot = [''NOQE'', ''NODELIVERYOWNER'']"
  by (simp add: triggered_codes_def source_policy_table_def trig_defs example_defs status_defs)

lemma unowned_noqe_spec_codes:
  "triggered_codes spec_policy_table unowned_noqe_snapshot = [''NODELIVERYOWNER'', ''NOQE'']"
  by (simp add: triggered_codes_def spec_policy_table_def trig_defs example_defs status_defs)

lemma neglected_codes:
  "triggered_codes source_policy_table neglected_snapshot =
     [''ALONGSIDE'', ''MULTIVERSION'', ''NOSTORIES'', ''NODESCRIPTION'', ''NOACKS'', ''NOQE'',
      ''NOFEATURE'', ''NODOC'', ''NODELIVERYOWNER'', ''NOQEMISMATCH'', ''NOCRITERIA'',
      ''NOPRIORITY'', ''NOTSTARTED'', ''NOSTORYPOINTS'', ''IMPEDIMENT'', ''NOINITIATIVE'',
      ''ISSUENOCOMPONENT'', ''NOCOMPONENT'', ''NOSTATUSCOMMENT'']"
  by (simp add: triggered_codes_def source_policy_table_def trig_defs example_defs status_defs)

lemma done_story_codes:
  "triggered_codes source_policy_table done_story_snapshot =
     [''NOVERSION'', ''NOQACONTACT'', ''NOTDONE'', ''NOEPIC'', ''NODESIGN'']"
  by (simp add: triggered_codes_def source_policy_table_def trig_defs example_defs status_defs)

lemma childless_codes:
  "triggered_codes source_policy_table childless_snapshot = [''NOSTORIES'', ''NOACTIVESTORIES'']"
  by (simp add: triggered_codes_def source_policy_table_def trig_defs example_defs status_defs)

lemma twice_alongside_codes:
  "triggered_codes source_policy_table twice_alongside_snapshot = [''ALONGSIDE'', ''MULTIVERSION'']"
  by (simp add: triggered_codes_def source_policy_table_def trig_defs example_defs status_defs)

lemma examples_not_obsolete:
  "\<not> InStatus (Issue epic_snapshot) IssueStatusObsolete"
  "\<not> InStatus (Issue unowned_noqe_snapshot) IssueStatusObsolete"
  "\<not> InStatus (Issue neglected_snapshot) IssueStatusObsolete"
  "\<not> InStatus (Issue done_story_snapshot) IssueStatusObsolete"
  "\<not> InStatus (Issue childless_snapshot) IssueStatusObsolete"
  "\<not> InStatus (Issue done_consistent_snapshot) IssueStatusObsolete"
  "\<not> InStatus (Issue done_inconsistent_snapshot) IssueStatusObsolete"
  "\<not> InStatus (Issue qe_mismatch_snapshot) IssueStatusObsolete"
  "\<not> InStatus (Issue no_qa_contact_snapshot) IssueStatusObsolete"
  "\<not> InStatus (Issue other_component_snapshot) IssueStatusObsolete"
  "\<not> InStatus (Issue twice_alongside_snapshot) IssueStatusObsolete"
  by (simp_all add: example_defs)

section \<open>The order of the messages\<close>

text \<open>
  C1, amended. For every snapshot that is not Obsolete, the messages of \<open>NewCheckResult\<close>
  are the codes of the policy rows whose triggers hold, in the order in which the source
  runs its checks: Alongside, Version presence, Multi-version, Activities, Description,
  Approvals, Planning flags (NOQE, NOFEATURE, NODOC), Delivery owner, QA contact mismatch,
  QA contact missing, Acceptance criteria, Priority, Started, Story points, Impediment,
  Initiative, Linked-issue component, Target component, Done, Active child stories, Linked
  epic, Status comment, Design. These are the rows of the specification's table, of which
  the source runs Planning flags before Delivery owner, and Active child stories and Linked
  epic before Status comment.
\<close>

theorem messages_in_source_order:
  "\<not> InStatus (Issue a) IssueStatusObsolete \<Longrightarrow>
   Messages (NewCheckResult a) = triggered_codes source_policy_table a \<and>
   mset source_policy_table = mset spec_policy_table"
  by (simp add: NewCheckResult_Messages same_rows)

theorem messages_in_source_order_witness:
  "\<not> InStatus (Issue unowned_noqe_snapshot) IssueStatusObsolete \<and>
   Messages (NewCheckResult unowned_noqe_snapshot) = [''NOQE'', ''NODELIVERYOWNER'']"
  using messages_in_source_order [of unowned_noqe_snapshot]
  by (simp add: examples_not_obsolete unowned_noqe_source_codes)

text \<open>
  C1 as stated fails: on an epic without an owner that is planned without QE the source
  reports NOQE before NODELIVERYOWNER, the table's order is the other way round.
\<close>

theorem messages_in_spec_order_counterexample:
  "\<not> InStatus (Issue unowned_noqe_snapshot) IssueStatusObsolete \<and>
   Messages (NewCheckResult unowned_noqe_snapshot) = [''NOQE'', ''NODELIVERYOWNER''] \<and>
   triggered_codes spec_policy_table unowned_noqe_snapshot = [''NODELIVERYOWNER'', ''NOQE''] \<and>
   Messages (NewCheckResult unowned_noqe_snapshot) \<noteq>
     triggered_codes spec_policy_table unowned_noqe_snapshot"
  by (simp add: NewCheckResult_Messages examples_not_obsolete unowned_noqe_source_codes
      unowned_noqe_spec_codes)

section \<open>The Obsolete short-circuit\<close>

text \<open>
  C3. For every snapshot whose issue is in status Obsolete, \<open>NewCheckResult\<close> returns
  exactly the result with \<open>Ready\<close> true, \<open>Status\<close> NONE and the one message OBSOLETE,
  whatever the other fields of the snapshot are; no check runs, so the same result comes
  out for any list of checks in place of the source's.
\<close>

theorem obsolete_short_circuit:
  "InStatus (Issue a) IssueStatusObsolete \<Longrightarrow>
   NewCheckResult a = \<lparr>Ready = True, Status = CheckStatusNone, Messages = [''OBSOLETE'']\<rparr> \<and>
   NewCheckResult_with cs a = NewCheckResult a"
  by (simp add: NewCheckResult_def NewCheckResult_obsolete)

theorem obsolete_short_circuit_witness:
  "InStatus (Issue obsolete_snapshot) IssueStatusObsolete \<and>
   NewCheckResult obsolete_snapshot =
     \<lparr>Ready = True, Status = CheckStatusNone, Messages = [''OBSOLETE'']\<rparr> \<and>
   NewCheckResult_with [] obsolete_snapshot = NewCheckResult obsolete_snapshot"
proof -
  have obsolete: "InStatus (Issue obsolete_snapshot) IssueStatusObsolete"
    by (simp add: obsolete_snapshot_def)
  show ?thesis
    using obsolete obsolete_short_circuit [OF obsolete, of "[]"] by simp
qed

section \<open>Idempotence of the merges\<close>

text \<open>
  C5. \<open>SetReady False\<close> applied twice gives the same result as applied once. For every
  status \<open>X\<close>, \<open>SetStatus X\<close> applied twice gives the same result as applied once, and
  the \<open>Status\<close> it leaves is the maximum of the current status and \<open>X\<close> in the order
  NONE < GREEN < YELLOW < RED.
\<close>

theorem merges_idempotent:
  "SetReady False (SetReady False r) = SetReady False r \<and>
   SetStatus X (SetStatus X r) = SetStatus X r \<and>
   Status (SetStatus X r) = max (Status r) X \<and>
   Status (SetStatus X (SetStatus X r)) = max (Status r) X \<and>
   CheckStatusNone < CheckStatusGreen \<and> CheckStatusGreen < CheckStatusYellow \<and>
   CheckStatusYellow < CheckStatusRed"
  by (simp add: SetReady_def SetStatus_def status_defs)

section \<open>Monotonicity\<close>

text \<open>
  C2. \<open>Ready\<close> only goes from true to false and \<open>Status\<close> only goes up in the order
  NONE < GREEN < YELLOW < RED: this is \<open>advances\<close>. It holds across \<open>SetReady\<close>,
  \<open>SetStatus\<close> and \<open>AddMessage\<close> with any argument, across every check of the source
  from any result, and from each state of an evaluation to the next, that is, from the
  result after the first \<open>k\<close> checks to the result after the first \<open>k + 1\<close>; so the
  result returned has advanced from the initial one.
\<close>

theorem ready_status_monotone:
  "advances r (SetReady b r) \<and> advances r (SetStatus s r) \<and> advances r (AddMessage m r) \<and>
   (\<forall>c \<in> set checks. advances r (c a r)) \<and>
   (\<forall>k < length checks.
      advances (run_checks (take k checks) a r) (run_checks (take (Suc k) checks) a r)) \<and>
   advances r (run_checks checks a r) \<and>
   advances initial_result (NewCheckResult a) \<and>
   CheckStatusNone < CheckStatusGreen \<and> CheckStatusGreen < CheckStatusYellow \<and>
   CheckStatusYellow < CheckStatusRed"
proof -
  have all: "\<forall>c \<in> set checks. merge_like (c a)"
    by (simp add: checks_merge_like)
  have step: "advances (run_checks (take k checks) a r) (run_checks (take (Suc k) checks) a r)"
    if "k < length checks" for k
  proof -
    have "take (Suc k) checks = take k checks @ [checks ! k]"
      using that by (simp add: take_Suc_conv_app_nth)
    moreover have "merge_like ((checks ! k) a)"
      using that by (simp add: checks_merge_like)
    ultimately show ?thesis
      by (simp add: run_checks_append run_checks_Cons run_checks_Nil merge_like_advances)
  qed
  show ?thesis
    using step
    by (simp add: merge_like_advances merge_like_SetReady merge_like_SetStatus
        merge_like_AddMessage checks_merge_like run_checks_advances [OF all]
        NewCheckResult_def NewCheckResult_with_advances [OF all] status_defs)
qed

theorem ready_status_monotone_witness:
  "checkDeliveryOwner \<in> set checks \<and>
   Ready initial_result \<and> Status initial_result = CheckStatusNone \<and>
   \<not> Ready (checkDeliveryOwner unowned_noqe_snapshot initial_result) \<and>
   Status (checkDeliveryOwner unowned_noqe_snapshot initial_result) = CheckStatusRed \<and>
   advances initial_result (checkDeliveryOwner unowned_noqe_snapshot initial_result) \<and>
   (6::nat) < length checks \<and>
   advances (run_checks (take 6 checks) unowned_noqe_snapshot initial_result)
     (run_checks (take (Suc 6) checks) unowned_noqe_snapshot initial_result)"
proof -
  have member: "checkDeliveryOwner \<in> set checks" and len: "(6::nat) < length checks"
    by (simp_all add: checks_def)
  have "advances initial_result (checkDeliveryOwner unowned_noqe_snapshot initial_result)"
    and "advances (run_checks (take 6 checks) unowned_noqe_snapshot initial_result)
     (run_checks (take (Suc 6) checks) unowned_noqe_snapshot initial_result)"
    using ready_status_monotone [of initial_result _ _ _ unowned_noqe_snapshot] member len
    by blast+
  then show ?thesis
    using member len
    by (simp add: checkDeliveryOwner_effect trig_nodeliveryowner_def example_defs
        initial_result_def status_defs)
qed

section \<open>Independence of the order of the checks\<close>

text \<open>
  C4. For every snapshot, running the checks of the source in any permutation of their
  order gives the same final \<open>Ready\<close> and the same final \<open>Status\<close> as \<open>NewCheckResult\<close>;
  \<open>SetReady\<close> and \<open>SetStatus\<close> commute with themselves and with each other.
\<close>

theorem ready_status_order_independent:
  "mset ps = mset checks \<Longrightarrow>
   Ready (NewCheckResult_with ps a) = Ready (NewCheckResult a) \<and>
   Status (NewCheckResult_with ps a) = Status (NewCheckResult a) \<and>
   SetReady b (SetReady b' r) = SetReady b' (SetReady b r) \<and>
   SetStatus s (SetStatus s' r) = SetStatus s' (SetStatus s r) \<and>
   SetReady b (SetStatus s r) = SetStatus s (SetReady b r)"
proof -
  assume "mset ps = mset checks"
  then have same: "set ps = set checks"
    by (rule mset_eq_setD)
  have all: "\<forall>c \<in> set checks. merge_like (c a)"
    by (simp add: checks_merge_like)
  have "Ready (NewCheckResult_with ps a) = Ready (NewCheckResult a)"
    and "Status (NewCheckResult_with ps a) = Status (NewCheckResult a)"
    using run_checks_same_set [OF all same, of initial_result]
    by (simp_all add: NewCheckResult_def NewCheckResult_with_def)
  moreover have "SetReady b (SetReady b' r) = SetReady b' (SetReady b r)"
    by (simp add: SetReady_def)
  moreover have "SetStatus s (SetStatus s' r) = SetStatus s' (SetStatus s r)"
    by (simp add: SetStatus_def)
  moreover have "SetReady b (SetStatus s r) = SetStatus s (SetReady b r)"
    by (simp add: SetReady_def SetStatus_def)
  ultimately show ?thesis
    by simp
qed

theorem ready_status_order_independent_witness:
  "mset (rev checks) = mset checks \<and> rev checks \<noteq> checks \<and>
   Ready (NewCheckResult_with (rev checks) neglected_snapshot) = False \<and>
   Status (NewCheckResult_with (rev checks) neglected_snapshot) = CheckStatusRed \<and>
   Ready (NewCheckResult neglected_snapshot) = False \<and>
   Status (NewCheckResult neglected_snapshot) = CheckStatusRed"
proof -
  have perm: "mset (rev checks) = mset checks"
    by simp
  have differ: "rev checks \<noteq> checks"
  proof
    assume "rev checks = checks"
    then have "hd (rev checks) neglected_snapshot initial_result =
               hd checks neglected_snapshot initial_result"
      by simp
    then show False
      by (simp add: checks_def checkDesign_def checkAlongside_def example_defs
          initial_result_def AddMessage_def SetReady_def)
  qed
  have "Ready (NewCheckResult neglected_snapshot) = False"
    and "Status (NewCheckResult neglected_snapshot) = CheckStatusRed"
    by (simp_all add: NewCheckResult_unfold examples_not_obsolete check_effects trig_defs
        example_defs initial_result_def status_defs)
  then show ?thesis
    using perm differ ready_status_order_independent [OF perm, of neglected_snapshot]
    by simp
qed

section \<open>The Done rule\<close>

text \<open>
  C6. For a snapshot whose issue is in status Done: if the status count of the issues
  completion differs from its total, or that of the points completion from its total,
  \<open>checkDone\<close> raises \<open>Status\<close> to RED (to the maximum of the current status and RED, as
  \<open>SetStatus\<close> does) and appends NOTDONE; if both counters are consistent it raises
  \<open>Status\<close> to at least GREEN and appends no message. For an issue that is not Done the
  rule changes nothing. In the whole evaluation of a snapshot that is not Obsolete, the
  first case leaves a status of at least RED and the message NOTDONE, the second a status
  of at least GREEN and no message NOTDONE.
\<close>

theorem checkDone_rule:
  "(InStatus (Issue a) IssueStatusDone \<and>
    (Progress.Status (IssuesCompletion a) \<noteq> Total (IssuesCompletion a) \<or>
     Progress.Status (PointsCompletion a) \<noteq> Total (PointsCompletion a)) \<longrightarrow>
      checkDone a r =
        r\<lparr>Status := max (Status r) CheckStatusRed, Messages := Messages r @ [''NOTDONE'']\<rparr> \<and>
      (Status r \<le> CheckStatusRed \<longrightarrow> Status (checkDone a r) = CheckStatusRed) \<and>
      (\<not> InStatus (Issue a) IssueStatusObsolete \<longrightarrow>
         CheckStatusRed \<le> Status (NewCheckResult a) \<and>
         ''NOTDONE'' \<in> set (Messages (NewCheckResult a)))) \<and>
   (InStatus (Issue a) IssueStatusDone \<and>
    Progress.Status (IssuesCompletion a) = Total (IssuesCompletion a) \<and>
    Progress.Status (PointsCompletion a) = Total (PointsCompletion a) \<longrightarrow>
      checkDone a r = r\<lparr>Status := max (Status r) CheckStatusGreen\<rparr> \<and>
      CheckStatusGreen \<le> Status (checkDone a r) \<and>
      Messages (checkDone a r) = Messages r \<and>
      (\<not> InStatus (Issue a) IssueStatusObsolete \<longrightarrow>
         CheckStatusGreen \<le> Status (NewCheckResult a) \<and>
         ''NOTDONE'' \<notin> set (Messages (NewCheckResult a)))) \<and>
   (\<not> InStatus (Issue a) IssueStatusDone \<longrightarrow> checkDone a r = r)"
proof -
  have member: "checkDone \<in> set checks"
    by (simp add: checks_def)
  have row: "(''NOTDONE'', trig_notdone) \<in> set source_policy_table"
    by (simp add: source_policy_table_def)
  have reported: "(''NOTDONE'' \<in> set (Messages (NewCheckResult a))) = trig_notdone a"
    if "\<not> InStatus (Issue a) IssueStatusObsolete"
    using that by (simp add: NewCheckResult_Messages code_triggered [OF source_codes_distinct row])
  have reached: "Status (checkDone a initial_result) \<le> Status (NewCheckResult a)"
    if "\<not> InStatus (Issue a) IssueStatusObsolete"
    using check_reaches_result [OF member that] by (simp add: advances_def)
  have rule: "checkDone a r' =
      (if \<not> InStatus (Issue a) IssueStatusDone then r'
       else if trig_notdone a
       then r'\<lparr>Status := max (Status r') CheckStatusRed, Messages := Messages r' @ [''NOTDONE'']\<rparr>
       else r'\<lparr>Status := max (Status r') CheckStatusGreen\<rparr>)" for r'
    by (simp add: checkDone_def trig_notdone_def SetStatus_eq AddMessage_def)
  show ?thesis
    using reported reached
    by (auto simp: rule trig_notdone_def checkDone_effect initial_result_def status_defs)
qed

theorem checkDone_rule_witness:
  "checkDone done_inconsistent_snapshot initial_result =
     \<lparr>Ready = True, Status = CheckStatusRed, Messages = [''NOTDONE'']\<rparr> \<and>
   CheckStatusRed \<le> Status (NewCheckResult done_inconsistent_snapshot) \<and>
   ''NOTDONE'' \<in> set (Messages (NewCheckResult done_inconsistent_snapshot)) \<and>
   checkDone done_consistent_snapshot initial_result =
     \<lparr>Ready = True, Status = CheckStatusGreen, Messages = []\<rparr> \<and>
   CheckStatusGreen \<le> Status (NewCheckResult done_consistent_snapshot) \<and>
   ''NOTDONE'' \<notin> set (Messages (NewCheckResult done_consistent_snapshot)) \<and>
   checkDone epic_snapshot initial_result = initial_result"
  using checkDone_rule [of done_inconsistent_snapshot initial_result]
    checkDone_rule [of done_consistent_snapshot initial_result]
    checkDone_rule [of epic_snapshot initial_result]
  by (simp add: example_defs initial_result_def status_defs)

section \<open>The QA contact rules\<close>

text \<open>
  C7, amended to snapshots that are not Obsolete. For every snapshot and every result,
  if the no-QE flag is set and the QA contact is not empty, \<open>checkQAContact\<close> sets
  \<open>Ready\<close> to false and appends NOQEMISMATCH and leaves \<open>Status\<close> as it is; if the flag
  is unset and the QA contact is empty, it sets \<open>Ready\<close> to false, raises \<open>Status\<close> to
  RED and appends NOQACONTACT; in the two remaining combinations it changes nothing. For
  every snapshot that is not Obsolete, the evaluation by \<open>NewCheckResult\<close> ends not
  ready and with the message in the first two cases (with a status of at least RED in the
  second), and with neither message in the other two. On an Obsolete snapshot
  \<open>checkQAContact\<close> is not run.
\<close>

theorem checkQAContact_rule:
  "(NoQE (Planning (Issue a)) \<and> QAContact (Issue a) \<noteq> '''' \<longrightarrow>
      checkQAContact a r = r\<lparr>Ready := False, Messages := Messages r @ [''NOQEMISMATCH'']\<rparr> \<and>
      (\<not> InStatus (Issue a) IssueStatusObsolete \<longrightarrow>
         \<not> Ready (NewCheckResult a) \<and>
         ''NOQEMISMATCH'' \<in> set (Messages (NewCheckResult a)))) \<and>
   (\<not> NoQE (Planning (Issue a)) \<and> QAContact (Issue a) = '''' \<longrightarrow>
      checkQAContact a r =
        r\<lparr>Ready := False, Status := max (Status r) CheckStatusRed,
          Messages := Messages r @ [''NOQACONTACT'']\<rparr> \<and>
      (Status r \<le> CheckStatusRed \<longrightarrow> Status (checkQAContact a r) = CheckStatusRed) \<and>
      (\<not> InStatus (Issue a) IssueStatusObsolete \<longrightarrow>
         \<not> Ready (NewCheckResult a) \<and> CheckStatusRed \<le> Status (NewCheckResult a) \<and>
         ''NOQACONTACT'' \<in> set (Messages (NewCheckResult a)))) \<and>
   ((NoQE (Planning (Issue a)) \<and> QAContact (Issue a) = '''') \<or>
    (\<not> NoQE (Planning (Issue a)) \<and> QAContact (Issue a) \<noteq> '''') \<longrightarrow>
      checkQAContact a r = r \<and>
      (\<not> InStatus (Issue a) IssueStatusObsolete \<longrightarrow>
         ''NOQEMISMATCH'' \<notin> set (Messages (NewCheckResult a)) \<and>
         ''NOQACONTACT'' \<notin> set (Messages (NewCheckResult a))))"
proof -
  have member: "checkQAContact \<in> set checks"
    by (simp add: checks_def)
  have rows: "(''NOQEMISMATCH'', trig_noqemismatch) \<in> set source_policy_table"
    "(''NOQACONTACT'', trig_noqacontact) \<in> set source_policy_table"
    by (simp_all add: source_policy_table_def)
  have reported:
    "(''NOQEMISMATCH'' \<in> set (Messages (NewCheckResult a))) = trig_noqemismatch a"
    "(''NOQACONTACT'' \<in> set (Messages (NewCheckResult a))) = trig_noqacontact a"
    if "\<not> InStatus (Issue a) IssueStatusObsolete"
    using that
    by (simp_all add: NewCheckResult_Messages code_triggered [OF source_codes_distinct rows(1)]
        code_triggered [OF source_codes_distinct rows(2)])
  have reached: "advances (checkQAContact a initial_result) (NewCheckResult a)"
    if "\<not> InStatus (Issue a) IssueStatusObsolete"
    using check_reaches_result [OF member that] .
  have rule: "checkQAContact a r' =
      (if trig_noqemismatch a
       then r'\<lparr>Ready := False, Messages := Messages r' @ [''NOQEMISMATCH'']\<rparr>
       else if trig_noqacontact a
       then r'\<lparr>Ready := False, Status := max (Status r') CheckStatusRed,
              Messages := Messages r' @ [''NOQACONTACT'']\<rparr>
       else r')" for r'
    by (simp add: checkQAContact_def trig_noqemismatch_def trig_noqacontact_def
        SetReady_False_eq SetStatus_eq AddMessage_def)
  show ?thesis
    using reported reached
    by (auto simp: rule advances_def trig_noqemismatch_def trig_noqacontact_def
        initial_result_def status_defs)
qed

theorem checkQAContact_rule_witness:
  "checkQAContact qe_mismatch_snapshot initial_result =
     \<lparr>Ready = False, Status = CheckStatusNone, Messages = [''NOQEMISMATCH'']\<rparr> \<and>
   \<not> Ready (NewCheckResult qe_mismatch_snapshot) \<and>
   ''NOQEMISMATCH'' \<in> set (Messages (NewCheckResult qe_mismatch_snapshot)) \<and>
   checkQAContact no_qa_contact_snapshot initial_result =
     \<lparr>Ready = False, Status = CheckStatusRed, Messages = [''NOQACONTACT'']\<rparr> \<and>
   \<not> Ready (NewCheckResult no_qa_contact_snapshot) \<and>
   CheckStatusRed \<le> Status (NewCheckResult no_qa_contact_snapshot) \<and>
   ''NOQACONTACT'' \<in> set (Messages (NewCheckResult no_qa_contact_snapshot)) \<and>
   checkQAContact epic_snapshot initial_result = initial_result \<and>
   checkQAContact unowned_noqe_snapshot initial_result = initial_result \<and>
   ''NOQEMISMATCH'' \<notin> set (Messages (NewCheckResult epic_snapshot)) \<and>
   ''NOQACONTACT'' \<notin> set (Messages (NewCheckResult unowned_noqe_snapshot))"
  using checkQAContact_rule [of qe_mismatch_snapshot initial_result]
    checkQAContact_rule [of no_qa_contact_snapshot initial_result]
    checkQAContact_rule [of epic_snapshot initial_result]
    checkQAContact_rule [of unowned_noqe_snapshot initial_result]
  by (simp add: example_defs initial_result_def status_defs)

text \<open>
  C7 as stated fails on Obsolete snapshots: \<open>NewCheckResult\<close> returns before any check
  runs. The obsolete epic is planned without QE and has a QA contact, yet its result is
  ready and has no NOQEMISMATCH; the obsolete epic without QA contact has the no-QE flag
  unset, yet its result is ready, of status NONE, and has no NOQACONTACT.
\<close>

theorem qa_contact_on_obsolete_counterexample:
  "InStatus (Issue obsolete_snapshot) IssueStatusObsolete \<and>
   NoQE (Planning (Issue obsolete_snapshot)) \<and> QAContact (Issue obsolete_snapshot) \<noteq> '''' \<and>
   Ready (NewCheckResult obsolete_snapshot) \<and>
   ''NOQEMISMATCH'' \<notin> set (Messages (NewCheckResult obsolete_snapshot)) \<and>
   InStatus (Issue obsolete_no_qa_snapshot) IssueStatusObsolete \<and>
   \<not> NoQE (Planning (Issue obsolete_no_qa_snapshot)) \<and>
   QAContact (Issue obsolete_no_qa_snapshot) = '''' \<and>
   Ready (NewCheckResult obsolete_no_qa_snapshot) \<and>
   Status (NewCheckResult obsolete_no_qa_snapshot) = CheckStatusNone \<and>
   ''NOQACONTACT'' \<notin> set (Messages (NewCheckResult obsolete_no_qa_snapshot)) \<and>
   NewCheckResult obsolete_snapshot =
     \<lparr>Ready = True, Status = CheckStatusNone, Messages = [''OBSOLETE'']\<rparr> \<and>
   NewCheckResult obsolete_no_qa_snapshot =
     \<lparr>Ready = True, Status = CheckStatusNone, Messages = [''OBSOLETE'']\<rparr>"
proof -
  have first: "InStatus (Issue obsolete_snapshot) IssueStatusObsolete"
    and second: "InStatus (Issue obsolete_no_qa_snapshot) IssueStatusObsolete"
    by (simp_all add: example_defs)
  have fields: "NoQE (Planning (Issue obsolete_snapshot))"
    "QAContact (Issue obsolete_snapshot) \<noteq> ''''"
    "\<not> NoQE (Planning (Issue obsolete_no_qa_snapshot))"
    "QAContact (Issue obsolete_no_qa_snapshot) = ''''"
    by (simp_all add: example_defs)
  show ?thesis
    using first second fields
    by (simp add: NewCheckResult_def NewCheckResult_obsolete [OF first]
        NewCheckResult_obsolete [OF second])
qed

section \<open>The target component rule\<close>

text \<open>
  C8, amended to snapshots that are not Obsolete. For every snapshot and every result,
  with a target component configured: if no component of the issue has the name of the
  target component, \<open>checkComponent\<close> sets \<open>Ready\<close> to false, raises \<open>Status\<close> to at
  least YELLOW and appends NOCOMPONENT; if the target component is among the issue's
  components, or none is configured, the rule changes nothing. For every snapshot that is
  not Obsolete, the evaluation by \<open>NewCheckResult\<close> ends in the first case not ready,
  with a status of at least YELLOW and with that message. On an Obsolete snapshot
  \<open>checkComponent\<close> is not run.
\<close>

theorem checkComponent_rule:
  "(Component a = Some t \<and>
    (\<forall>c \<in> set (Components (Fields (Issue a))). Component.Name c \<noteq> t) \<longrightarrow>
      checkComponent a r =
        r\<lparr>Ready := False, Status := max (Status r) CheckStatusYellow,
          Messages := Messages r @ [''NOCOMPONENT'']\<rparr> \<and>
      CheckStatusYellow \<le> Status (checkComponent a r) \<and>
      (\<not> InStatus (Issue a) IssueStatusObsolete \<longrightarrow>
         \<not> Ready (NewCheckResult a) \<and> CheckStatusYellow \<le> Status (NewCheckResult a) \<and>
         ''NOCOMPONENT'' \<in> set (Messages (NewCheckResult a)))) \<and>
   (Component a = Some t \<and>
    (\<exists>c \<in> set (Components (Fields (Issue a))). Component.Name c = t) \<longrightarrow>
      checkComponent a r = r) \<and>
   (Component a = None \<longrightarrow> checkComponent a r = r)"
proof -
  have member: "checkComponent \<in> set checks"
    by (simp add: checks_def)
  have row: "(''NOCOMPONENT'', trig_nocomponent) \<in> set source_policy_table"
    by (simp add: source_policy_table_def)
  have reported: "(''NOCOMPONENT'' \<in> set (Messages (NewCheckResult a))) = trig_nocomponent a"
    if "\<not> InStatus (Issue a) IssueStatusObsolete"
    using that by (simp add: NewCheckResult_Messages code_triggered [OF source_codes_distinct row])
  have reached: "advances (checkComponent a initial_result) (NewCheckResult a)"
    if "\<not> InStatus (Issue a) IssueStatusObsolete"
    using check_reaches_result [OF member that] .
  have rule: "checkComponent a r' =
      (if trig_nocomponent a
       then r'\<lparr>Ready := False, Status := max (Status r') CheckStatusYellow,
              Messages := Messages r' @ [''NOCOMPONENT'']\<rparr>
       else r')" for r'
    by (simp add: checkComponent_def checkComponent_missing_eq trig_nocomponent_def
        SetReady_False_eq SetStatus_eq AddMessage_def split: option.splits)
  show ?thesis
    using reported reached
    by (auto simp: rule advances_def trig_nocomponent_def initial_result_def status_defs)
qed

theorem checkComponent_rule_witness:
  "checkComponent other_component_snapshot initial_result =
     \<lparr>Ready = False, Status = CheckStatusYellow, Messages = [''NOCOMPONENT'']\<rparr> \<and>
   \<not> Ready (NewCheckResult other_component_snapshot) \<and>
   CheckStatusYellow \<le> Status (NewCheckResult other_component_snapshot) \<and>
   ''NOCOMPONENT'' \<in> set (Messages (NewCheckResult other_component_snapshot)) \<and>
   checkComponent (epic_snapshot\<lparr>Component := Some ''Core''\<rparr>) initial_result = initial_result \<and>
   checkComponent epic_snapshot initial_result = initial_result"
  using checkComponent_rule [of other_component_snapshot "''Core''" initial_result]
    checkComponent_rule [of "epic_snapshot\<lparr>Component := Some ''Core''\<rparr>" "''Core''" initial_result]
    checkComponent_rule [of epic_snapshot "''Core''" initial_result]
  by (simp add: example_defs initial_result_def status_defs)

text \<open>
  C8 as stated fails on Obsolete snapshots: the obsolete epic has the target component
  Core configured and only the component Other of its own, yet \<open>NewCheckResult\<close> returns
  before any check runs, with a result that is ready, of status NONE, and without
  NOCOMPONENT.
\<close>

theorem component_on_obsolete_counterexample:
  "InStatus (Issue obsolete_snapshot) IssueStatusObsolete \<and>
   Component obsolete_snapshot = Some ''Core'' \<and>
   map Component.Name (Components (Fields (Issue obsolete_snapshot))) = [''Other''] \<and>
   Ready (NewCheckResult obsolete_snapshot) \<and>
   Status (NewCheckResult obsolete_snapshot) < CheckStatusYellow \<and>
   ''NOCOMPONENT'' \<notin> set (Messages (NewCheckResult obsolete_snapshot)) \<and>
   NewCheckResult obsolete_snapshot =
     \<lparr>Ready = True, Status = CheckStatusNone, Messages = [''OBSOLETE'']\<rparr>"
proof -
  have obsolete: "InStatus (Issue obsolete_snapshot) IssueStatusObsolete"
    by (simp add: example_defs)
  have fields: "Component obsolete_snapshot = Some ''Core''"
    "map Component.Name (Components (Fields (Issue obsolete_snapshot))) = [''Other'']"
    by (simp_all add: example_defs)
  show ?thesis
    using obsolete fields
    by (simp add: NewCheckResult_def NewCheckResult_obsolete [OF obsolete] status_defs)
qed

section \<open>The vocabulary of the messages\<close>

text \<open>
  C9, amended. For every snapshot, every message returned by \<open>NewCheckResult\<close> is one of
  the diagnostic codes of the policy table, and these are 26 distinct codes: OBSOLETE and
  the 25 codes of the rows of the table.
\<close>

theorem messages_in_vocabulary:
  "set (Messages (NewCheckResult a)) \<subseteq> set vocabulary \<and>
   distinct vocabulary \<and> length vocabulary = 26"
proof -
  have codes: "map fst source_policy_table =
      [''ALONGSIDE'', ''NOVERSION'', ''MULTIVERSION'', ''NOSTORIES'', ''NODESCRIPTION'',
       ''NOACKS'', ''NOQE'', ''NOFEATURE'', ''NODOC'', ''NODELIVERYOWNER'', ''NOQEMISMATCH'',
       ''NOQACONTACT'', ''NOCRITERIA'', ''NOPRIORITY'', ''NOTSTARTED'', ''NOSTORYPOINTS'',
       ''IMPEDIMENT'', ''NOINITIATIVE'', ''ISSUENOCOMPONENT'', ''NOCOMPONENT'', ''NOTDONE'',
       ''NOACTIVESTORIES'', ''NOEPIC'', ''NOSTATUSCOMMENT'', ''NODESIGN'']"
    by (simp add: source_policy_table_def)
  have "set (map fst source_policy_table) = set (map fst spec_policy_table)"
    using same_rows by (metis mset_map set_mset_mset)
  then have rows: "set (triggered_codes source_policy_table a) \<subseteq> set vocabulary"
    using triggered_codes_subset [of source_policy_table a] by (auto simp: vocabulary_def)
  have inside: "set (Messages (NewCheckResult a)) \<subseteq> set vocabulary"
  proof (cases "InStatus (Issue a) IssueStatusObsolete")
    case True
    then show ?thesis
      by (simp add: NewCheckResult_def NewCheckResult_obsolete vocabulary_def)
  next
    case False
    then show ?thesis
      using rows by (simp add: NewCheckResult_Messages)
  qed
  have "distinct vocabulary" and "length vocabulary = 26"
    by (simp_all add: vocabulary_def spec_policy_table_def)
  with inside show ?thesis
    by simp
qed

theorem messages_in_vocabulary_witness:
  "set (Messages (NewCheckResult done_story_snapshot)) \<subseteq> set vocabulary \<and>
   Messages (NewCheckResult done_story_snapshot) =
     [''NOVERSION'', ''NOQACONTACT'', ''NOTDONE'', ''NOEPIC'', ''NODESIGN''] \<and>
   distinct vocabulary \<and> length vocabulary = 26"
  using messages_in_vocabulary [of done_story_snapshot]
  by (simp add: NewCheckResult_Messages examples_not_obsolete done_story_codes)

text \<open>
  C9 as stated fails in its count: the policy table has 26 distinct codes, not 22, and
  the source reports all 26 of them on the four example snapshots, so no vocabulary of 22
  codes holds every message.
\<close>

theorem vocabulary_of_22_counterexample:
  "card (set vocabulary) = 26 \<and> card (set vocabulary) \<noteq> 22 \<and>
   card (set (Messages (NewCheckResult neglected_snapshot)) \<union>
         set (Messages (NewCheckResult done_story_snapshot)) \<union>
         set (Messages (NewCheckResult childless_snapshot)) \<union>
         set (Messages (NewCheckResult obsolete_snapshot))) = 26"
proof -
  have obsolete: "Messages (NewCheckResult obsolete_snapshot) = [''OBSOLETE'']"
    by (simp add: NewCheckResult_def NewCheckResult_obsolete obsolete_snapshot_def)
  have reported:
    "Messages (NewCheckResult neglected_snapshot) @
     Messages (NewCheckResult done_story_snapshot) @
     Messages (NewCheckResult childless_snapshot) @
     Messages (NewCheckResult obsolete_snapshot) =
       [''ALONGSIDE'', ''MULTIVERSION'', ''NOSTORIES'', ''NODESCRIPTION'', ''NOACKS'', ''NOQE'',
        ''NOFEATURE'', ''NODOC'', ''NODELIVERYOWNER'', ''NOQEMISMATCH'', ''NOCRITERIA'',
        ''NOPRIORITY'', ''NOTSTARTED'', ''NOSTORYPOINTS'', ''IMPEDIMENT'', ''NOINITIATIVE'',
        ''ISSUENOCOMPONENT'', ''NOCOMPONENT'', ''NOSTATUSCOMMENT'',
        ''NOVERSION'', ''NOQACONTACT'', ''NOTDONE'', ''NOEPIC'', ''NODESIGN'',
        ''NOSTORIES'', ''NOACTIVESTORIES'', ''OBSOLETE'']"
    by (simp add: NewCheckResult_Messages examples_not_obsolete neglected_codes
        done_story_codes childless_codes obsolete)
  have "set (Messages (NewCheckResult neglected_snapshot)) \<union>
        set (Messages (NewCheckResult done_story_snapshot)) \<union>
        set (Messages (NewCheckResult childless_snapshot)) \<union>
        set (Messages (NewCheckResult obsolete_snapshot)) =
        set (Messages (NewCheckResult neglected_snapshot) @
             Messages (NewCheckResult done_story_snapshot) @
             Messages (NewCheckResult childless_snapshot) @
             Messages (NewCheckResult obsolete_snapshot))"
    by (simp only: set_append Un_assoc)
  also have "card \<dots> = 26"
    unfolding reported card_set by simp
  finally have all_reported:
    "card (set (Messages (NewCheckResult neglected_snapshot)) \<union>
           set (Messages (NewCheckResult done_story_snapshot)) \<union>
           set (Messages (NewCheckResult childless_snapshot)) \<union>
           set (Messages (NewCheckResult obsolete_snapshot))) = 26" .
  have "card (set vocabulary) = 26"
    unfolding card_set by (simp add: vocabulary_def spec_policy_table_def)
  with all_reported show ?thesis
    by simp
qed

section \<open>The Alongside marker\<close>

text \<open>
  C10. For every snapshot, ALONGSIDE occurs at most once among the messages of
  \<open>NewCheckResult\<close>, also when several fix versions have a name that starts with
  Alongside: the loop of \<open>checkAlongside\<close> appends the message at the first such version
  and returns, whatever versions follow.
\<close>

theorem alongside_at_most_once:
  "count_list (Messages (NewCheckResult a)) ''ALONGSIDE'' \<le> 1 \<and>
   ((\<forall>u \<in> set us. \<not> prefix ''Alongside'' (FixVersion.Name u)) \<and>
    prefix ''Alongside'' (FixVersion.Name v) \<longrightarrow>
      checkAlongside_loop (us @ v # vs) r = AddMessage ''ALONGSIDE'' r) \<and>
   count_list (Messages (checkAlongside a r)) ''ALONGSIDE'' \<le>
     count_list (Messages r) ''ALONGSIDE'' + 1"
proof -
  have whole: "count_list (Messages (NewCheckResult a)) ''ALONGSIDE'' \<le> 1"
  proof (cases "InStatus (Issue a) IssueStatusObsolete")
    case True
    then show ?thesis
      by (simp add: NewCheckResult_def NewCheckResult_obsolete)
  next
    case False
    have "count_list (triggered_codes source_policy_table a) ''ALONGSIDE'' \<le>
          count_list (map fst source_policy_table) ''ALONGSIDE''"
      by (rule count_triggered_codes)
    also have "\<dots> \<le> 1"
      using source_codes_distinct by (rule count_distinct)
    finally show ?thesis
      using False by (simp add: NewCheckResult_Messages)
  qed
  have first: "checkAlongside_loop (us @ v # vs) r = AddMessage ''ALONGSIDE'' r"
    if "\<forall>u \<in> set us. \<not> prefix ''Alongside'' (FixVersion.Name u)"
      and "prefix ''Alongside'' (FixVersion.Name v)"
    using that by (induction us) simp_all
  have rule: "count_list (Messages (checkAlongside a r)) ''ALONGSIDE'' \<le>
      count_list (Messages r) ''ALONGSIDE'' + 1"
    by (simp add: checkAlongside_effect triggered_codes_single)
  show ?thesis
    using whole first rule by blast
qed

theorem alongside_at_most_once_witness:
  "count_list (Messages (NewCheckResult twice_alongside_snapshot)) ''ALONGSIDE'' = 1 \<and>
   Messages (NewCheckResult twice_alongside_snapshot) = [''ALONGSIDE'', ''MULTIVERSION''] \<and>
   prefix ''Alongside'' ''Alongside 4.5'' \<and> prefix ''Alongside'' ''Alongside 4.6'' \<and>
   checkAlongside_loop
     ([] @ \<lparr>FixVersion.Name = ''Alongside 4.5''\<rparr> # [\<lparr>FixVersion.Name = ''Alongside 4.6''\<rparr>])
     initial_result = AddMessage ''ALONGSIDE'' initial_result"
  using alongside_at_most_once [of twice_alongside_snapshot "[]"
      "\<lparr>FixVersion.Name = ''Alongside 4.5''\<rparr>" "[\<lparr>FixVersion.Name = ''Alongside 4.6''\<rparr>]"
      initial_result]
  by (simp add: NewCheckResult_Messages examples_not_obsolete twice_alongside_codes)

end
